theory Spec2Isabelle
  imports Main "HOL-Library.Word"
begin

section \<open>Go values\<close>

text \<open>
  A Go slice is either the nil slice or a backing list. \<open>make([]T, 0)\<close> is
  \<open>Slice []\<close>, which is empty and not nil.
\<close>

datatype 'a slice = NilSlice | Slice "'a list"

fun elems :: "'a slice \<Rightarrow> 'a list" where
  "elems NilSlice = []"
| "elems (Slice xs) = xs"

text \<open>\<open>append(s, x)\<close>: the result is never the nil slice.\<close>

fun append_slice :: "'a slice \<Rightarrow> 'a \<Rightarrow> 'a slice" where
  "append_slice NilSlice x = Slice [x]"
| "append_slice (Slice xs) x = Slice (xs @ [x])"

text \<open>
  The dynamic values that travel through \<open>interface{}\<close> in the healthcare service
  resource: what the configuration accessor hands out (\<open>string\<close>, \<open>int\<close>, \<open>bool\<close>,
  \<open>[]interface{}\<close>, \<open>map[string]interface{}\<close>) and what the resource stores into it
  (additionally \<open>int32\<close>, \<open>*int32\<close> and \<open>[]string\<close>). \<open>VNil\<close> is the nil interface
  value: the element that the accessor hands out for a block without any attribute.
  Go's \<open>int\<close> is the 64-bit integer of the platforms the provider is built for. A pointer
  \<open>*T\<close> is a \<open>T option\<close>, \<open>None\<close> being nil.
\<close>

datatype val =
    VNil
  | VString string
  | VInt "64 word"
  | VInt32 "32 word"
  | VInt32Ptr "32 word option"
  | VBool bool
  | VStrings "string slice"
  | VList "val list"
  | VMap "string \<Rightarrow> val option"

text \<open>
  An expression of Go either yields a value or panics (here: a failed type assertion).
\<close>

datatype 'a go = Panic | Ret 'a

section \<open>The API structs\<close>

text \<open>
  The fields of the \<open>healthcareapis\<close> structs that the resource reads and writes. Every
  field is a pointer in Go.
\<close>

record ServiceAccessPolicyEntry =
  ObjectID :: "string option"

record ServiceCosmosDbConfigurationInfo =
  OfferThroughput :: "32 word option"

record ServiceCorsConfigurationInfo =
  Origins :: "string slice option"
  Headers :: "string slice option"
  Methods :: "string slice option"
  MaxAge :: "32 word option"
  AllowCredentials :: "bool option"

record ServiceAuthenticationConfigurationInfo =
  Authority :: "string option"
  Audience :: "string option"
  SmartProxyEnabled :: "bool option"

record ServicesProperties =
  AccessPolicies :: "ServiceAccessPolicyEntry slice option"
  CosmosDbConfiguration :: "ServiceCosmosDbConfigurationInfo option"
  CorsConfiguration :: "ServiceCorsConfigurationInfo option"
  AuthenticationConfiguration :: "ServiceAuthenticationConfigurationInfo option"

section \<open>The configuration accessor\<close>

text \<open>
  \<open>schema.ResourceData\<close>: the stored identifier (\<open>d.Id()\<close>), the new-resource flag
  (\<open>d.IsNewResource()\<close>) and the attribute values by name.
\<close>

record ResourceData =
  Id_rd :: string
  IsNewResource :: bool
  attrs :: "string \<Rightarrow> val option"

text \<open>
  Modelled from the spec: \<open>d.Get\<close> of the configuration accessor is not among the
  sources; \<open>get(field) -> value\<close> reads the attribute. The accessor hands out the empty
  list for a list attribute without blocks.
\<close>

definition dGet :: "ResourceData \<Rightarrow> string \<Rightarrow> val option" where
  "dGet d key = attrs d key"

section \<open>Flatten: API struct to configuration value\<close>

text \<open>
  \<open>FlattenHealthcareAccessPolicies\<close> (package \<open>azure\<close>). The loop body builds \<open>policyRaw\<close>
  and appends it to \<open>result\<close>.
\<close>

definition policyRaw :: "ServiceAccessPolicyEntry \<Rightarrow> (string \<Rightarrow> val option)" where
  "policyRaw policy =
     (case ObjectID policy of
        None \<Rightarrow> Map.empty
      | Some objectId \<Rightarrow> Map.empty(''object_id'' \<mapsto> VString objectId))"

fun flatten_policies_loop ::
  "ServiceAccessPolicyEntry list \<Rightarrow> (string \<Rightarrow> val option) slice \<Rightarrow> (string \<Rightarrow> val option) slice"
where
  "flatten_policies_loop [] result = result"
| "flatten_policies_loop (policy # rest) result =
     flatten_policies_loop rest (append_slice result (policyRaw policy))"

definition FlattenHealthcareAccessPolicies ::
  "ServiceAccessPolicyEntry slice option \<Rightarrow> (string \<Rightarrow> val option) slice"
where
  "FlattenHealthcareAccessPolicies policies =
     (let result = Slice [] in
      case policies of
        None \<Rightarrow> result
      | Some ps \<Rightarrow> flatten_policies_loop (elems ps) result)"

text \<open>
  The block of \<open>resourceArmHealthcareServiceRead\<close> that builds \<open>authOutput\<close> from
  \<open>properties.AuthenticationConfiguration\<close>.
\<close>

definition authOutput :: "ServiceAuthenticationConfigurationInfo option \<Rightarrow> val list" where
  "authOutput authConfig =
     (case authConfig of
        None \<Rightarrow> []
      | Some c \<Rightarrow>
          (let output0 = Map.empty;
               output1 = (case Authority c of None \<Rightarrow> output0
                          | Some a \<Rightarrow> output0(''authority'' \<mapsto> VString a));
               output2 = (case Audience c of None \<Rightarrow> output1
                          | Some a \<Rightarrow> output1(''audience'' \<mapsto> VString a));
               output3 = (case SmartProxyEnabled c of None \<Rightarrow> output2
                          | Some b \<Rightarrow> output2(''smart_proxy_enabled'' \<mapsto> VBool b))
           in [] @ [VMap output3]))"

text \<open>
  The block of \<open>resourceArmHealthcareServiceRead\<close> that builds \<open>corsOutput\<close> from
  \<open>properties.CorsConfiguration\<close>.
\<close>

definition corsOutput :: "ServiceCorsConfigurationInfo option \<Rightarrow> val list" where
  "corsOutput corsConfig =
     (case corsConfig of
        None \<Rightarrow> []
      | Some c \<Rightarrow>
          (let output0 = Map.empty;
               output1 = (case Origins c of None \<Rightarrow> output0
                          | Some x \<Rightarrow> output0(''allowed_origins'' \<mapsto> VStrings x));
               output2 = (case Headers c of None \<Rightarrow> output1
                          | Some x \<Rightarrow> output1(''allowed_headers'' \<mapsto> VStrings x));
               output3 = (case Methods c of None \<Rightarrow> output2
                          | Some x \<Rightarrow> output2(''allowed_methods'' \<mapsto> VStrings x));
               output4 = (case MaxAge c of None \<Rightarrow> output3
                          | Some x \<Rightarrow> output3(''max_age_in_seconds'' \<mapsto> VInt32 x));
               output5 = (case AllowCredentials c of None \<Rightarrow> output4
                          | Some x \<Rightarrow> output4(''allow_credentials'' \<mapsto> VBool x))
           in [] @ [VMap output5]))"

section \<open>Expand: configuration value to API struct\<close>

text \<open>
  \<open>expandAzureRMhealthcareapisAccessPolicyEntries\<close>. The assertion
  \<open>objectId.(string)\<close> panics on any other dynamic type.
\<close>

fun expand_policies_loop ::
  "val list \<Rightarrow> ServiceAccessPolicyEntry slice \<Rightarrow> ServiceAccessPolicyEntry slice go"
where
  "expand_policies_loop [] svcAccessPolicyArray = Ret svcAccessPolicyArray"
| "expand_policies_loop (objectId # rest) svcAccessPolicyArray =
     (case objectId of
        VString objectIdsStr \<Rightarrow>
          expand_policies_loop rest
            (append_slice svcAccessPolicyArray \<lparr>ObjectID = Some objectIdsStr\<rparr>)
      | _ \<Rightarrow> Panic)"

definition expandAzureRMhealthcareapisAccessPolicyEntries ::
  "ResourceData \<Rightarrow> ServiceAccessPolicyEntry slice option go"
where
  "expandAzureRMhealthcareapisAccessPolicyEntries d =
     (case dGet d ''access_policy_object_ids'' of
        Some (VList accessPolicyObjectIds) \<Rightarrow>
          (case expand_policies_loop accessPolicyObjectIds (Slice []) of
             Panic \<Rightarrow> Panic
           | Ret svcAccessPolicyArray \<Rightarrow> Ret (Some svcAccessPolicyArray))
      | _ \<Rightarrow> Panic)"

text \<open>
  Modelled from the spec: \<open>utils.ExpandStringSlice\<close> is not among the sources. It is the
  element-wise conversion of a \<open>[]interface{}\<close> of strings into a fresh \<open>[]string\<close>,
  returned by pointer; an element that is not a string fails its type assertion.
\<close>

fun expand_strings_loop :: "val list \<Rightarrow> string slice \<Rightarrow> string slice go" where
  "expand_strings_loop [] result = Ret result"
| "expand_strings_loop (item # rest) result =
     (case item of
        VString s \<Rightarrow> expand_strings_loop rest (append_slice result s)
      | _ \<Rightarrow> Panic)"

definition ExpandStringSlice :: "val list \<Rightarrow> string slice option go" where
  "ExpandStringSlice input =
     (case expand_strings_loop input (Slice []) of
        Panic \<Rightarrow> Panic
      | Ret result \<Rightarrow> Ret (Some result))"

text \<open>
  \<open>*utils.ExpandStringSlice(m[key].([]interface{}))\<close>: the lookup in the block, the
  assertion, the call and the dereference.
\<close>

definition block_strings :: "(string \<Rightarrow> val option) \<Rightarrow> string \<Rightarrow> string slice go" where
  "block_strings m key =
     (case m key of
        Some (VList xs) \<Rightarrow>
          (case ExpandStringSlice xs of
             Ret (Some r) \<Rightarrow> Ret r
           | _ \<Rightarrow> Panic)
      | _ \<Rightarrow> Panic)"

text \<open>
  One iteration of the loop of \<open>expandAzureRMhealthcareapisCorsConfiguration\<close>: all five
  locals are overwritten from the block; \<open>int32(...)\<close> keeps the low 32 bits.
\<close>

type_synonym cors_locals = "string slice \<times> string slice \<times> string slice \<times> 32 word \<times> bool"

definition cors_body :: "val \<Rightarrow> cors_locals \<Rightarrow> cors_locals go" where
  "cors_body attr locals =
     (case attr of
        VMap corsConfigAttr \<Rightarrow>
          (case block_strings corsConfigAttr ''allowed_origins'' of Panic \<Rightarrow> Panic
           | Ret allowedOrigins \<Rightarrow>
          (case block_strings corsConfigAttr ''allowed_headers'' of Panic \<Rightarrow> Panic
           | Ret allowedHeaders \<Rightarrow>
          (case block_strings corsConfigAttr ''allowed_methods'' of Panic \<Rightarrow> Panic
           | Ret allowedMethods \<Rightarrow>
          (case corsConfigAttr ''max_age_in_seconds'' of
             Some (VInt n) \<Rightarrow>
               (case corsConfigAttr ''allow_credentials'' of
                  Some (VBool allowCredentials) \<Rightarrow>
                    Ret (allowedOrigins, allowedHeaders, allowedMethods,
                         (ucast n :: 32 word), allowCredentials)
                | _ \<Rightarrow> Panic)
           | _ \<Rightarrow> Panic))))
      | _ \<Rightarrow> Panic)"

fun cors_loop :: "val list \<Rightarrow> cors_locals \<Rightarrow> cors_locals go" where
  "cors_loop [] locals = Ret locals"
| "cors_loop (attr # rest) locals =
     (case cors_body attr locals of
        Panic \<Rightarrow> Panic
      | Ret locals' \<Rightarrow> cors_loop rest locals')"

definition expandAzureRMhealthcareapisCorsConfiguration ::
  "ResourceData \<Rightarrow> ServiceCorsConfigurationInfo option go"
where
  "expandAzureRMhealthcareapisCorsConfiguration d =
     (case dGet d ''cors_configuration'' of
        Some (VList corsConfigRaw) \<Rightarrow>
          if length corsConfigRaw = 0
          then Ret (Some \<lparr>Origins = None, Headers = None, Methods = None,
                           MaxAge = None, AllowCredentials = None\<rparr>)
          else
            (case cors_loop corsConfigRaw (Slice [], Slice [], Slice [], 0, True) of
               Panic \<Rightarrow> Panic
             | Ret (allowedOrigins, allowedHeaders, allowedMethods,
                    maxAgeInSeconds, allowCredentials) \<Rightarrow>
                 Ret (Some \<lparr>Origins = Some allowedOrigins, Headers = Some allowedHeaders,
                            Methods = Some allowedMethods, MaxAge = Some maxAgeInSeconds,
                            AllowCredentials = Some allowCredentials\<rparr>))
      | _ \<Rightarrow> Panic)"

text \<open>\<open>expandAzureRMhealthcareapisAuthentication\<close>, in the same shape.\<close>

type_synonym auth_locals = "string \<times> string \<times> bool"

definition auth_body :: "val \<Rightarrow> auth_locals \<Rightarrow> auth_locals go" where
  "auth_body attr locals =
     (case attr of
        VMap authConfigAttr \<Rightarrow>
          (case authConfigAttr ''authority'' of
             Some (VString authority) \<Rightarrow>
               (case authConfigAttr ''audience'' of
                  Some (VString audience) \<Rightarrow>
                    (case authConfigAttr ''smart_proxy_enabled'' of
                       Some (VBool smart_proxy_enabled) \<Rightarrow>
                         Ret (authority, audience, smart_proxy_enabled)
                     | _ \<Rightarrow> Panic)
                | _ \<Rightarrow> Panic)
           | _ \<Rightarrow> Panic)
      | _ \<Rightarrow> Panic)"

fun auth_loop :: "val list \<Rightarrow> auth_locals \<Rightarrow> auth_locals go" where
  "auth_loop [] locals = Ret locals"
| "auth_loop (attr # rest) locals =
     (case auth_body attr locals of
        Panic \<Rightarrow> Panic
      | Ret locals' \<Rightarrow> auth_loop rest locals')"

definition expandAzureRMhealthcareapisAuthentication ::
  "ResourceData \<Rightarrow> ServiceAuthenticationConfigurationInfo option go"
where
  "expandAzureRMhealthcareapisAuthentication d =
     (case dGet d ''authentication_configuration'' of
        Some (VList authConfigRaw) \<Rightarrow>
          if length authConfigRaw = 0
          then Ret (Some \<lparr>Authority = None, Audience = None, SmartProxyEnabled = None\<rparr>)
          else
            (case auth_loop authConfigRaw ('''', '''', True) of
               Panic \<Rightarrow> Panic
             | Ret (authority, audience, smart_proxy_enabled) \<Rightarrow>
                 Ret (Some \<lparr>Authority = Some authority, Audience = Some audience,
                            SmartProxyEnabled = Some smart_proxy_enabled\<rparr>))
      | _ \<Rightarrow> Panic)"

section \<open>Schema shapes\<close>

text \<open>
  The shapes that the schema of \<open>resourceArmHealthcareService\<close> declares for the elements
  of \<open>cors_configuration\<close> and \<open>authentication_configuration\<close>: the accessor hands out
  every attribute of a block with a value of its declared type.
\<close>

fun is_string_list :: "val option \<Rightarrow> bool" where
  "is_string_list (Some (VList xs)) = list_all (\<lambda>x. case x of VString _ \<Rightarrow> True | _ \<Rightarrow> False) xs"
| "is_string_list _ = False"

fun is_int :: "val option \<Rightarrow> bool" where
  "is_int (Some (VInt _)) = True"
| "is_int _ = False"

fun is_bool :: "val option \<Rightarrow> bool" where
  "is_bool (Some (VBool _)) = True"
| "is_bool _ = False"

fun is_string :: "val option \<Rightarrow> bool" where
  "is_string (Some (VString _)) = True"
| "is_string _ = False"

fun cors_block_typed :: "val \<Rightarrow> bool" where
  "cors_block_typed (VMap m) =
     (is_string_list (m ''allowed_origins'') \<and> is_string_list (m ''allowed_headers'') \<and>
      is_string_list (m ''allowed_methods'') \<and> is_int (m ''max_age_in_seconds'') \<and>
      is_bool (m ''allow_credentials''))"
| "cors_block_typed _ = False"

fun auth_block_typed :: "val \<Rightarrow> bool" where
  "auth_block_typed (VMap m) =
     (is_string (m ''authority'') \<and> is_string (m ''audience'') \<and>
      is_bool (m ''smart_proxy_enabled''))"
| "auth_block_typed _ = False"

section \<open>Round trips\<close>




text \<open>
  The configuration of a new service with one object identifier and no CORS or
  authentication block.
\<close>

definition example_config :: ResourceData where
  "example_config =
     \<lparr>Id_rd = '''', IsNewResource = True,
      attrs = Map.empty
        (''name'' \<mapsto> VString ''svc1'',
         ''resource_group_name'' \<mapsto> VString ''rg1'',
         ''location'' \<mapsto> VString ''westus2'',
         ''tags'' \<mapsto> VMap Map.empty,
         ''kind'' \<mapsto> VString ''fhir'',
         ''cosmosdb_throughput'' \<mapsto> VInt 1000,
         ''access_policy_object_ids'' \<mapsto> VList [VString ''11111111-1111-1111-1111-111111111111''],
         ''cors_configuration'' \<mapsto> VList [],
         ''authentication_configuration'' \<mapsto> VList [])\<rparr>"

section \<open>Errors, transport and state\<close>

text \<open>
  Go \<open>error\<close> values. \<open>External\<close> is an error produced by a collaborator (transport,
  identifier parser, schema); \<open>Errorf\<close> keeps the format string and the arguments of a
  \<open>fmt.Errorf\<close> call.

  Modelled from the spec: \<open>tf.ImportAsExistsError\<close> is not among the sources; the
  already-exists error it builds is kept as a constructor holding the resource type and
  the identifier it was given.
\<close>

datatype error =
    External string
  | Errorf string "fmt_arg list"
  | ImportAsExistsError string string
and fmt_arg = AString string | AError error | AVal val

type_synonym tags = "string \<Rightarrow> string option option"

text \<open>
  \<open>healthcareapis.ServicesDescription\<close>. \<open>Response\<close> is the HTTP status code of the
  embedded response, \<open>None\<close> when there is none.
\<close>

record ServicesDescription =
  Response :: "nat option"
  ID :: "string option"
  Location :: "string option"
  Tags :: tags
  Kind :: string
  Properties :: "ServicesProperties option"

text \<open>
  Modelled from the spec: \<open>utils.ResponseWasNotFound\<close> is not among the sources; a fetch
  reports "not found" when the response carries status 404.
\<close>

definition ResponseWasNotFound :: "nat option \<Rightarrow> bool" where
  "ResponseWasNotFound resp = (resp = Some 404)"

record ResourceID =
  ResourceGroup :: string
  Path :: "string \<Rightarrow> string option"

text \<open>Indexing a Go map of strings: a missing key reads as the empty string.\<close>

definition path_index :: "(string \<Rightarrow> string option) \<Rightarrow> string \<Rightarrow> string" where
  "path_index m key = (case m key of None \<Rightarrow> '''' | Some v \<Rightarrow> v)"

datatype future = Future nat

text \<open>
  What an operation does to the outside, in order: the transport calls it makes and the
  identifiers it stores.
\<close>

datatype effect =
    CallGet string string
  | CallCreateOrUpdate string string ServicesDescription
  | CallWaitForCompletionRef future
  | CallDelete string string
  | DoSetId string

text \<open>
  The collaborators that are not among the sources, taken as parameters. The transport
  answers as a function of the calls made so far, so that a later \<open>Get\<close> may differ from
  an earlier one. \<open>parseAzureResourceID\<close> yields either an error or the parsed
  identifier. \<open>schema_error\<close> is the verdict of the schema on a value stored under a key.
\<close>

record env =
  requireResourcesToBeImported :: bool
  parseAzureResourceID :: "string \<Rightarrow> error + ResourceID"
  NormalizeLocation :: "string \<Rightarrow> string"
  expandTags :: "(string \<Rightarrow> val option) \<Rightarrow> tags"
  flattenTags :: "tags \<Rightarrow> val"

  schema_error :: "string \<Rightarrow> val \<Rightarrow> error option"
  client_Get :: "effect list \<Rightarrow> string \<Rightarrow> string \<Rightarrow> ServicesDescription \<times> error option"
  client_CreateOrUpdate ::
    "effect list \<Rightarrow> string \<Rightarrow> string \<Rightarrow> ServicesDescription \<Rightarrow> future \<times> error option"
  client_Delete :: "effect list \<Rightarrow> string \<Rightarrow> string \<Rightarrow> future \<times> error option"
  WaitForCompletionRef :: "effect list \<Rightarrow> future \<Rightarrow> error option"

record world =
  rd :: ResourceData
  effects :: "effect list"

text \<open>\<open>perform\<close> records an effect; the accessor is untouched.\<close>

definition perform :: "effect \<Rightarrow> world \<Rightarrow> world" where
  "perform e s = s\<lparr>effects := effects s @ [e]\<rparr>"

text \<open>
  Modelled from the spec: \<open>d.SetId\<close> is not among the sources; \<open>setId(string)\<close> stores
  the identifier.
\<close>

definition SetId :: "string \<Rightarrow> world \<Rightarrow> world" where
  "SetId v s = perform (DoSetId v) (s\<lparr>rd := (rd s)\<lparr>Id_rd := v\<rparr>\<rparr>)"

text \<open>
  Modelled from the spec: \<open>d.Set\<close> of the configuration accessor is not among the sources;
  \<open>set(field, value) -> error\<close> stores the value unless the schema rejects it.
\<close>

definition dSet :: "env \<Rightarrow> string \<Rightarrow> val \<Rightarrow> ResourceData \<Rightarrow> error option \<times> ResourceData" where
  "dSet env key v d =
     (case schema_error env key v of
        Some e \<Rightarrow> (Some e, d)
      | None \<Rightarrow> (None, d\<lparr>attrs := (attrs d)(key \<mapsto> v)\<rparr>))"

text \<open>
  Modelled from the spec: \<open>flattenAndSetTags\<close> is not among the sources; it stores the
  flattened tags under \<open>tags\<close>.
\<close>

definition flattenAndSetTags :: "env \<Rightarrow> ResourceData \<Rightarrow> tags \<Rightarrow> ResourceData" where
  "flattenAndSetTags env d t = snd (dSet env ''tags'' (flattenTags env t) d)"

text \<open>Type assertions on what \<open>d.Get\<close> returns.\<close>

fun assert_string :: "val option \<Rightarrow> string go" where
  "assert_string (Some (VString s)) = Ret s"
| "assert_string _ = Panic"

fun assert_int :: "val option \<Rightarrow> 64 word go" where
  "assert_int (Some (VInt n)) = Ret n"
| "assert_int _ = Panic"

fun assert_map :: "val option \<Rightarrow> (string \<Rightarrow> val option) go" where
  "assert_map (Some (VMap m)) = Ret m"
| "assert_map _ = Panic"

section \<open>The lifecycle handlers\<close>

text \<open>
  Modelled from the spec: \<open>flattenHealthcareAccessPolicies\<close> of package \<open>azurerm\<close>, which
  \<open>resourceArmHealthcareServiceRead\<close> calls, is not among the sources. Flatten yields a
  configuration-shaped value and omits what is absent; the configuration shape of
  \<open>access_policy_object_ids\<close> is the ordered list of the object identifier strings. So
  the entries are gone through in order, the identifier of each entry that has one is
  appended, and a nil pointer gives the empty list.
\<close>

fun flatten_ids_loop :: "ServiceAccessPolicyEntry list \<Rightarrow> val list \<Rightarrow> val list" where
  "flatten_ids_loop [] result = result"
| "flatten_ids_loop (policy # rest) result =
     (case ObjectID policy of
        None \<Rightarrow> flatten_ids_loop rest result
      | Some objectId \<Rightarrow> flatten_ids_loop rest (result @ [VString objectId]))"

definition flattenHealthcareAccessPolicies :: "ServiceAccessPolicyEntry slice option \<Rightarrow> val" where
  "flattenHealthcareAccessPolicies policies =
     (case policies of
        None \<Rightarrow> VList []
      | Some ps \<Rightarrow> VList (flatten_ids_loop (elems ps) []))"

text \<open>
  The part of \<open>resourceArmHealthcareServiceRead\<close> after a successful \<open>Get\<close>: the response
  is written back field by field. Only the two block attributes have their \<open>d.Set\<close>
  error checked.
\<close>

definition read_fields ::
  "env \<Rightarrow> string \<Rightarrow> string \<Rightarrow> ServicesDescription \<Rightarrow> ResourceData \<Rightarrow> error option \<times> ResourceData"
where
  "read_fields env name resourceGroup resp d =
     (let d1 = snd (dSet env ''name'' (VString name) d);
          d2 = snd (dSet env ''resource_group_name'' (VString resourceGroup) d1);
          d3 = (case Location resp of
                  None \<Rightarrow> d2
                | Some location \<Rightarrow>
                    snd (dSet env ''location'' (VString (NormalizeLocation env location)) d2));
          d4 = (if Kind resp \<noteq> '''' then snd (dSet env ''kind'' (VString (Kind resp)) d3)
                else d3)
      in case Properties resp of
           None \<Rightarrow> (None, flattenAndSetTags env d4 (Tags resp))
         | Some properties \<Rightarrow>
             (let d5 = (case AccessPolicies properties of
                          None \<Rightarrow> d4
                        | Some config \<Rightarrow>
                            snd (dSet env ''access_policy_object_ids''
                                   (flattenHealthcareAccessPolicies (Some config)) d4));
                  d6 = (case CosmosDbConfiguration properties of
                          None \<Rightarrow> d5
                        | Some config \<Rightarrow>
                            snd (dSet env ''cosmosdb_throughput''
                                   (VInt32Ptr (OfferThroughput config)) d5));
                  authOut = authOutput (AuthenticationConfiguration properties)
              in case dSet env ''authentication_configuration'' (VList authOut) d6 of
                   (Some err, d7) \<Rightarrow>
                     (Some (Errorf ''Error setting `authentication_configuration`: %+v''
                              [AVal (VList authOut)]), d7)
                 | (None, d7) \<Rightarrow>
                     (let corsOut = corsOutput (CorsConfiguration properties)
                      in case dSet env ''cors_configuration'' (VList corsOut) d7 of
                           (Some err, d8) \<Rightarrow>
                             (Some (Errorf ''Error setting `cors_configuration`: %+v''
                                      [AVal (VList corsOut)]), d8)
                         | (None, d8) \<Rightarrow> (None, flattenAndSetTags env d8 (Tags resp)))))"

definition resourceArmHealthcareServiceRead :: "env \<Rightarrow> world \<Rightarrow> error option \<times> world" where
  "resourceArmHealthcareServiceRead env s =
     (case parseAzureResourceID env (Id_rd (rd s)) of
        Inl err \<Rightarrow> (Some err, s)
      | Inr rid \<Rightarrow>
          (let resourceGroup = ResourceGroup rid;
               name = path_index (Path rid) ''services'';
               (resp, err) = client_Get env (effects s) resourceGroup name;
               s1 = perform (CallGet resourceGroup name) s
           in case err of
                Some e \<Rightarrow>
                  if ResponseWasNotFound (Response resp)
                  then (None, SetId '''' s1)
                  else (Some (Errorf
                          ''Error making Read request on Azure Healthcare Service %q (Resource Group %q): %+v''
                          [AString name, AString resourceGroup, AError e]), s1)
              | None \<Rightarrow>
                  (case read_fields env name resourceGroup resp (rd s1) of
                     (r, d') \<Rightarrow> (r, s1\<lparr>rd := d'\<rparr>))))"

text \<open>
  The existence check of \<open>resourceArmHealthcareServiceCreateUpdate\<close> under import
  protection. \<open>Some\<close> is the error the handler returns with; \<open>None\<close> lets it go on.
\<close>

definition import_check :: "env \<Rightarrow> string \<Rightarrow> string \<Rightarrow> world \<Rightarrow> error option \<times> world" where
  "import_check env name resGroup s =
     (if requireResourcesToBeImported env \<and> IsNewResource (rd s)
      then
        (let (existing, err) = client_Get env (effects s) resGroup name;
             s1 = perform (CallGet resGroup name) s;
             fatal = (case err of
                        None \<Rightarrow> None
                      | Some e \<Rightarrow>
                          if \<not> ResponseWasNotFound (Response existing)
                          then Some (Errorf
                                 ''Error checking for presence of existing Healthcare Service %q (Resource Group %q): %s''
                                 [AString name, AString resGroup, AError e])
                          else None)
         in case fatal of
              Some x \<Rightarrow> (Some x, s1)
            | None \<Rightarrow>
                (case ID existing of
                   None \<Rightarrow> (None, s1)
                 | Some i \<Rightarrow>
                     if i \<noteq> ''''
                     then (Some (ImportAsExistsError ''azurerm_healthcare_service'' i), s1)
                     else (None, s1)))
      else (None, s))"

text \<open>
  The request struct of \<open>resourceArmHealthcareServiceCreateUpdate\<close>; the three expand
  calls run in the order of the struct literal.
\<close>

definition healthcareServiceDescription ::
  "string \<Rightarrow> tags \<Rightarrow> string \<Rightarrow> 32 word \<Rightarrow> ResourceData \<Rightarrow> ServicesDescription go"
where
  "healthcareServiceDescription location expandedTags kind cdba d =
     (case expandAzureRMhealthcareapisAccessPolicyEntries d of Panic \<Rightarrow> Panic
      | Ret accessPolicies \<Rightarrow>
     (case expandAzureRMhealthcareapisCorsConfiguration d of Panic \<Rightarrow> Panic
      | Ret cors \<Rightarrow>
     (case expandAzureRMhealthcareapisAuthentication d of Panic \<Rightarrow> Panic
      | Ret auth \<Rightarrow>
          Ret \<lparr>Response = None, ID = None, Location = Some location, Tags = expandedTags,
               Kind = kind,
               Properties = Some
                 \<lparr>AccessPolicies = accessPolicies,
                  CosmosDbConfiguration = Some \<lparr>OfferThroughput = Some cdba\<rparr>,
                  CorsConfiguration = cors,
                  AuthenticationConfiguration = auth\<rparr>\<rparr>)))"

text \<open>
  From \<open>client.CreateOrUpdate\<close> to the end of
  \<open>resourceArmHealthcareServiceCreateUpdate\<close>.
\<close>

definition create_submit ::
  "env \<Rightarrow> string \<Rightarrow> string \<Rightarrow> ServicesDescription \<Rightarrow> world \<Rightarrow> error option \<times> world"
where
  "create_submit env name resGroup desc s =
     (let (fut, err) = client_CreateOrUpdate env (effects s) resGroup name desc;
          s1 = perform (CallCreateOrUpdate resGroup name desc) s
      in case err of
           Some e \<Rightarrow>
             (Some (Errorf ''Error Creating/Updating Healthcare Service %q (Resource Group %q): %+v''
                      [AString name, AString resGroup, AError e]), s1)
         | None \<Rightarrow>
             (let werr = WaitForCompletionRef env (effects s1) fut;
                  s2 = perform (CallWaitForCompletionRef fut) s1
              in case werr of
                   Some e \<Rightarrow>
                     (Some (Errorf
                        ''Error Creating/Updating Healthcare Service %q (Resource Group %q): %+v''
                        [AString name, AString resGroup, AError e]), s2)
                 | None \<Rightarrow>
                     (let (read, gerr) = client_Get env (effects s2) resGroup name;
                          s3 = perform (CallGet resGroup name) s2
                      in case gerr of
                           Some e \<Rightarrow>
                             (Some (Errorf
                                ''Error Retrieving Healthcare Service %q (Resource Group %q): %+v''
                                [AString name, AString resGroup, AError e]), s3)
                         | None \<Rightarrow>
                             (case ID read of
                                None \<Rightarrow>
                                  (Some (Errorf
                                     ''Cannot read Healthcare Service %q (resource group %q) ID''
                                     [AString name, AString resGroup]), s3)
                              | Some i \<Rightarrow>
                                  resourceArmHealthcareServiceRead env (SetId i s3)))))"

definition resourceArmHealthcareServiceCreateUpdate ::
  "env \<Rightarrow> world \<Rightarrow> error option go \<times> world"
where
  "resourceArmHealthcareServiceCreateUpdate env s =
     (case assert_string (dGet (rd s) ''name'') of Panic \<Rightarrow> (Panic, s)
      | Ret name \<Rightarrow>
     (case assert_string (dGet (rd s) ''resource_group_name'') of Panic \<Rightarrow> (Panic, s)
      | Ret resGroup \<Rightarrow>
     (case assert_string (dGet (rd s) ''location'') of Panic \<Rightarrow> (Panic, s)
      | Ret loc \<Rightarrow>
     (case assert_map (dGet (rd s) ''tags'') of Panic \<Rightarrow> (Panic, s)
      | Ret tags \<Rightarrow>
     (case assert_string (dGet (rd s) ''kind'') of Panic \<Rightarrow> (Panic, s)
      | Ret kind \<Rightarrow>
     (case assert_int (dGet (rd s) ''cosmosdb_throughput'') of Panic \<Rightarrow> (Panic, s)
      | Ret n \<Rightarrow>
          (let location = NormalizeLocation env loc;
               expandedTags = expandTags env tags;
               cdba = (ucast n :: 32 word)
           in case import_check env name resGroup s of
                (Some err, s1) \<Rightarrow> (Ret (Some err), s1)
              | (None, s1) \<Rightarrow>
                  (case healthcareServiceDescription location expandedTags kind cdba (rd s1) of
                     Panic \<Rightarrow> (Panic, s1)
                   | Ret desc \<Rightarrow>
                       (case create_submit env name resGroup desc s1 of
                          (r, s2) \<Rightarrow> (Ret r, s2))))))))))"

definition resourceArmHealthcareServiceDelete :: "env \<Rightarrow> world \<Rightarrow> error option \<times> world" where
  "resourceArmHealthcareServiceDelete env s =
     (case parseAzureResourceID env (Id_rd (rd s)) of
        Inl err \<Rightarrow> (Some (Errorf ''Error Parsing Azure Resource ID: %+v'' [AError err]), s)
      | Inr rid \<Rightarrow>
          (let resGroup = ResourceGroup rid;
               name = path_index (Path rid) ''services'';
               (fut, err) = client_Delete env (effects s) resGroup name;
               s1 = perform (CallDelete resGroup name) s
           in case err of
                Some e \<Rightarrow>
                  (Some (Errorf ''Error deleting Healthcare Service %q (Resource Group %q): %+v''
                           [AString name, AString resGroup, AError e]), s1)
              | None \<Rightarrow>
                  (let werr = WaitForCompletionRef env (effects s1) fut;
                       s2 = perform (CallWaitForCompletionRef fut) s1
                   in case werr of
                        Some e \<Rightarrow>
                          (Some (Errorf
                             ''Error waiting for the deleting Healthcare Service %q (Resource Group %q): %+v''
                             [AString name, AString resGroup, AError e]), s2)
                      | None \<Rightarrow> (None, s2))))"

section \<open>The round trip of a whole configuration\<close>




section \<open>Concrete configurations and collaborators\<close>


definition cors_block_a :: "string \<Rightarrow> val option" where
  "cors_block_a = Map.empty
     (''allowed_origins'' \<mapsto> VList [VString ''https://a.example''],
      ''allowed_headers'' \<mapsto> VList [VString ''x-a''],
      ''allowed_methods'' \<mapsto> VList [VString ''GET''],
      ''max_age_in_seconds'' \<mapsto> VInt 100,
      ''allow_credentials'' \<mapsto> VBool True)"

definition cors_block_b :: "string \<Rightarrow> val option" where
  "cors_block_b = Map.empty
     (''allowed_origins'' \<mapsto> VList [VString ''https://b.example''],
      ''allowed_headers'' \<mapsto> VList [],
      ''allowed_methods'' \<mapsto> VList [VString ''PUT'', VString ''POST''],
      ''max_age_in_seconds'' \<mapsto> VInt 500,
      ''allow_credentials'' \<mapsto> VBool False)"

definition auth_block_a :: "string \<Rightarrow> val option" where
  "auth_block_a = Map.empty
     (''authority'' \<mapsto> VString ''https://login.a'',
      ''audience'' \<mapsto> VString ''aud-a'',
      ''smart_proxy_enabled'' \<mapsto> VBool True)"

definition auth_block_b :: "string \<Rightarrow> val option" where
  "auth_block_b = Map.empty
     (''authority'' \<mapsto> VString ''https://login.b'',
      ''audience'' \<mapsto> VString '''',
      ''smart_proxy_enabled'' \<mapsto> VBool False)"


definition two_block_config :: ResourceData where
  "two_block_config =
     example_config\<lparr>attrs := (attrs example_config)
        (''cors_configuration'' \<mapsto> VList [VMap cors_block_a, VMap cors_block_b],
         ''authentication_configuration'' \<mapsto> VList [VMap auth_block_a, VMap auth_block_b])\<rparr>"

text \<open>
  The example configuration with three object identifiers; with an authentication block
  without attributes, alone, before and after a block with attributes; with an empty
  kind; and with a throughput beyond the 32-bit range.
\<close>

definition three_id_config :: ResourceData where
  "three_id_config =
     example_config\<lparr>attrs := (attrs example_config)
        (''access_policy_object_ids'' \<mapsto>
           VList [VString ''11111111-1111-1111-1111-111111111111'',
                  VString ''22222222-2222-2222-2222-222222222222'',
                  VString ''33333333-3333-3333-3333-333333333333''])\<rparr>"


definition blank_first_auth_config :: ResourceData where
  "blank_first_auth_config =
     example_config\<lparr>attrs := (attrs example_config)
        (''authentication_configuration'' \<mapsto> VList [VNil, VMap auth_block_b])\<rparr>"

definition blank_last_auth_config :: ResourceData where
  "blank_last_auth_config =
     example_config\<lparr>attrs := (attrs example_config)
        (''authentication_configuration'' \<mapsto> VList [VMap auth_block_a, VNil])\<rparr>"



definition service_id :: string where
  "service_id =
     ''/subscriptions/0/resourceGroups/rg1/providers/Microsoft.HealthcareApis/services/svc1''"

text \<open>An identifier parser that knows \<open>service_id\<close> only.\<close>

definition fixture_parse :: "string \<Rightarrow> error + ResourceID" where
  "fixture_parse i =
     (if i = service_id
      then Inr \<lparr>ResourceGroup = ''rg1'', Path = Map.empty(''services'' \<mapsto> ''svc1'')\<rparr>
      else Inl (External ''cannot parse Azure Resource ID''))"

text \<open>
  Collaborators whose transport is given by the answers of \<open>Get\<close>, of the submitting
  calls and of the wait, each as a function of the calls made so far.
\<close>

definition fixture_env ::
  "bool \<Rightarrow> (effect list \<Rightarrow> ServicesDescription \<times> error option) \<Rightarrow>
   (effect list \<Rightarrow> error option) \<Rightarrow> (effect list \<Rightarrow> error option) \<Rightarrow> env"
where
  "fixture_env protect get submit wait =
     \<lparr>requireResourcesToBeImported = protect,
      parseAzureResourceID = fixture_parse,
      NormalizeLocation = (\<lambda>l. l),
      expandTags = (\<lambda>t. Map.empty),
      flattenTags = (\<lambda>t. VMap Map.empty),

      schema_error = (\<lambda>k v. None),
      client_Get = (\<lambda>h rg n. get h),
      client_CreateOrUpdate = (\<lambda>h rg n desc. (Future 0, submit h)),
      client_Delete = (\<lambda>h rg n. (Future 1, submit h)),
      WaitForCompletionRef = (\<lambda>h f. wait h)\<rparr>"

definition remote_service :: ServicesDescription where
  "remote_service =
     \<lparr>Response = Some 200, ID = Some service_id, Location = Some ''westus2'',
      Tags = Map.empty, Kind = ''fhir'', Properties = None\<rparr>"

definition no_service :: "nat \<Rightarrow> ServicesDescription" where
  "no_service status =
     \<lparr>Response = Some status, ID = None, Location = None,
      Tags = Map.empty, Kind = '''', Properties = None\<rparr>"

definition found :: "effect list \<Rightarrow> ServicesDescription \<times> error option" where
  "found h = (remote_service, None)"

definition not_found :: "effect list \<Rightarrow> ServicesDescription \<times> error option" where
  "not_found h = (no_service 404, Some (External ''StatusCode=404''))"

definition unavailable :: "effect list \<Rightarrow> ServicesDescription \<times> error option" where
  "unavailable h = (no_service 500, Some (External ''StatusCode=500''))"

definition found_without_id :: "effect list \<Rightarrow> ServicesDescription \<times> error option" where
  "found_without_id h = (remote_service\<lparr>ID := None\<rparr>, None)"

definition succeeds :: "effect list \<Rightarrow> error option" where
  "succeeds h = None"

definition fails :: "effect list \<Rightarrow> error option" where
  "fails h = Some (External ''StatusCode=409'')"

text \<open>A resource about to be created, and one that is stored under \<open>service_id\<close>.\<close>

definition new_world :: world where
  "new_world = \<lparr>rd = example_config, effects = []\<rparr>"

definition stored_world :: world where
  "stored_world =
     \<lparr>rd = example_config\<lparr>Id_rd := service_id, IsNewResource := False\<rparr>, effects = []\<rparr>"

definition unparsable_world :: world where
  "unparsable_world =
     \<lparr>rd = example_config\<lparr>Id_rd := ''svc1'', IsNewResource := False\<rparr>, effects = []\<rparr>"

section \<open>The mapper loops\<close>

lemma flatten_policies_loop_map:
  "flatten_policies_loop ps (Slice acc) = Slice (acc @ map policyRaw ps)"
  by (induction ps arbitrary: acc) simp_all

lemma expand_policies_loop_strings:
  "expand_policies_loop (map VString ids) (Slice acc) =
     Ret (Slice (acc @ map (\<lambda>s. \<lparr>ObjectID = Some s\<rparr>) ids))"
  by (induction ids arbitrary: acc) simp_all

lemma expand_strings_loop_strings:
  "expand_strings_loop (map VString xs) (Slice acc) = Ret (Slice (acc @ xs))"
  by (induction xs arbitrary: acc) simp_all

lemma all_strings_map:
  "list_all (\<lambda>x. case x of VString _ \<Rightarrow> True | _ \<Rightarrow> False) xs \<Longrightarrow> \<exists>ys. xs = map VString ys"
proof (induction xs)
  case Nil
  then show ?case by simp
next
  case (Cons x xs)
  then obtain ys where ys: "xs = map VString ys" by auto
  from Cons.prems obtain s where "x = VString s" by (cases x) simp_all
  with ys have "x # xs = map VString (s # ys)" by simp
  then show ?case by (rule exI)
qed

lemma is_string_list_map:
  "is_string_list v \<Longrightarrow> \<exists>xs. v = Some (VList (map VString xs))"
  by (cases v rule: is_string_list.cases) (auto dest: all_strings_map)

lemma is_int_some: "is_int v \<Longrightarrow> \<exists>n. v = Some (VInt n)"
  by (cases v rule: is_int.cases) simp_all

lemma is_bool_some: "is_bool v \<Longrightarrow> \<exists>b. v = Some (VBool b)"
  by (cases v rule: is_bool.cases) simp_all

lemma is_string_some: "is_string v \<Longrightarrow> \<exists>s. v = Some (VString s)"
  by (cases v rule: is_string.cases) simp_all

lemma block_strings_strings:
  "m key = Some (VList (map VString xs)) \<Longrightarrow> block_strings m key = Ret (Slice xs)"
  by (simp add: block_strings_def ExpandStringSlice_def expand_strings_loop_strings)

lemma cors_body_fields:
  assumes "m ''allowed_origins'' = Some (VList (map VString os))"
    and "m ''allowed_headers'' = Some (VList (map VString hs))"
    and "m ''allowed_methods'' = Some (VList (map VString ms))"
    and "m ''max_age_in_seconds'' = Some (VInt n)"
    and "m ''allow_credentials'' = Some (VBool c)"
  shows "cors_body (VMap m) l = Ret (Slice os, Slice hs, Slice ms, ucast n, c)"
  using assms by (simp add: cors_body_def block_strings_strings)

lemma cors_body_typed:
  assumes "cors_block_typed b"
  shows "\<exists>r. cors_body b l = Ret r"
proof -
  from assms obtain m where b: "b = VMap m" by (cases b) simp_all
  with assms obtain os hs ms n c where
    "m ''allowed_origins'' = Some (VList (map VString os))"
    "m ''allowed_headers'' = Some (VList (map VString hs))"
    "m ''allowed_methods'' = Some (VList (map VString ms))"
    "m ''max_age_in_seconds'' = Some (VInt n)"
    "m ''allow_credentials'' = Some (VBool c)"
    using is_string_list_map is_int_some is_bool_some by (metis cors_block_typed.simps(1))
  then show ?thesis using cors_body_fields b by blast
qed

lemma cors_body_locals: "cors_body b l = cors_body b l'"
  by (simp add: cors_body_def)

lemma cors_loop_snoc:
  "cors_loop (bs @ [b]) l = (case cors_loop bs l of Panic \<Rightarrow> Panic | Ret l' \<Rightarrow> cors_body b l')"
  by (induction bs arbitrary: l) (auto split: go.splits)

lemma cors_loop_typed:
  "list_all cors_block_typed bs \<Longrightarrow> \<exists>r. cors_loop bs l = Ret r"
proof (induction bs arbitrary: l)
  case Nil
  have "cors_loop [] l = Ret l" by simp
  then show ?case by (rule exI)
next
  case (Cons b bs)
  from Cons.prems have b: "cors_block_typed b" and bs: "list_all cors_block_typed bs"
    by simp_all
  from cors_body_typed [OF b] obtain r where r: "cors_body b l = Ret r" by blast
  from Cons.IH [OF bs] obtain r' where "cors_loop bs r = Ret r'" by blast
  with r have "cors_loop (b # bs) l = Ret r'" by simp
  then show ?case by (rule exI)
qed

lemma cors_loop_last:
  assumes "list_all cors_block_typed bs"
  shows "cors_loop (bs @ [b]) l = cors_body b l"
proof -
  obtain r where "cors_loop bs l = Ret r" using cors_loop_typed [OF assms] by blast
  then show ?thesis by (simp add: cors_loop_snoc cors_body_locals [of b r l])
qed

lemma auth_body_fields:
  assumes "m ''authority'' = Some (VString a)"
    and "m ''audience'' = Some (VString u)"
    and "m ''smart_proxy_enabled'' = Some (VBool p)"
  shows "auth_body (VMap m) l = Ret (a, u, p)"
  using assms by (simp add: auth_body_def)

lemma auth_body_typed:
  assumes "auth_block_typed b"
  shows "\<exists>r. auth_body b l = Ret r"
proof -
  from assms obtain m where b: "b = VMap m" by (cases b) simp_all
  with assms obtain a u p where
    "m ''authority'' = Some (VString a)"
    "m ''audience'' = Some (VString u)"
    "m ''smart_proxy_enabled'' = Some (VBool p)"
    using is_string_some is_bool_some by (metis auth_block_typed.simps(1))
  then show ?thesis using auth_body_fields b by blast
qed

lemma auth_body_locals: "auth_body b l = auth_body b l'"
  by (simp add: auth_body_def)

lemma auth_loop_snoc:
  "auth_loop (bs @ [b]) l = (case auth_loop bs l of Panic \<Rightarrow> Panic | Ret l' \<Rightarrow> auth_body b l')"
  by (induction bs arbitrary: l) (auto split: go.splits)

lemma auth_loop_typed:
  "list_all auth_block_typed bs \<Longrightarrow> \<exists>r. auth_loop bs l = Ret r"
proof (induction bs arbitrary: l)
  case Nil
  have "auth_loop [] l = Ret l" by simp
  then show ?case by (rule exI)
next
  case (Cons b bs)
  from Cons.prems have b: "auth_block_typed b" and bs: "list_all auth_block_typed bs"
    by simp_all
  from auth_body_typed [OF b] obtain r where r: "auth_body b l = Ret r" by blast
  from Cons.IH [OF bs] obtain r' where "auth_loop bs r = Ret r'" by blast
  with r have "auth_loop (b # bs) l = Ret r'" by simp
  then show ?case by (rule exI)
qed

lemma auth_loop_last:
  assumes "list_all auth_block_typed bs"
  shows "auth_loop (bs @ [b]) l = auth_body b l"
proof -
  obtain r where "auth_loop bs l = Ret r" using auth_loop_typed [OF assms] by blast
  then show ?thesis by (simp add: auth_loop_snoc auth_body_locals [of b r l])
qed

section \<open>Properties of the mapper\<close>


lemma expand_policies_strings:
  assumes "dGet d ''access_policy_object_ids'' = Some (VList (map VString ids))"
  shows "expandAzureRMhealthcareapisAccessPolicyEntries d =
           Ret (Some (Slice (map (\<lambda>s. \<lparr>ObjectID = Some s\<rparr>) ids)))"
  using assms expand_policies_loop_strings [of ids "[]"]
  by (simp add: expandAzureRMhealthcareapisAccessPolicyEntries_def)

lemma flatten_policies_map:
  "FlattenHealthcareAccessPolicies (Some ps) = Slice (map policyRaw (elems ps))"
  using flatten_policies_loop_map [of "elems ps" "[]"]
  by (simp add: FlattenHealthcareAccessPolicies_def)

lemma expand_cors_last:
  assumes "dGet d ''cors_configuration'' = Some (VList (bs @ [VMap m]))"
    and "list_all cors_block_typed bs"
    and "m ''allowed_origins'' = Some (VList (map VString os))"
    and "m ''allowed_headers'' = Some (VList (map VString hs))"
    and "m ''allowed_methods'' = Some (VList (map VString ms))"
    and "m ''max_age_in_seconds'' = Some (VInt n)"
    and "m ''allow_credentials'' = Some (VBool c)"
  shows "expandAzureRMhealthcareapisCorsConfiguration d =
           Ret (Some \<lparr>Origins = Some (Slice os), Headers = Some (Slice hs),
                      Methods = Some (Slice ms), MaxAge = Some (ucast n),
                      AllowCredentials = Some c\<rparr>)"
proof -
  have "cors_loop (bs @ [VMap m]) (Slice [], Slice [], Slice [], 0, True) =
          Ret (Slice os, Slice hs, Slice ms, ucast n, c)"
    using assms by (simp only: cors_loop_last cors_body_fields)
  with assms(1) show ?thesis
    by (simp add: expandAzureRMhealthcareapisCorsConfiguration_def)
qed

lemma expand_auth_last:
  assumes "dGet d ''authentication_configuration'' = Some (VList (bs @ [VMap m]))"
    and "list_all auth_block_typed bs"
    and "m ''authority'' = Some (VString a)"
    and "m ''audience'' = Some (VString u)"
    and "m ''smart_proxy_enabled'' = Some (VBool p)"
  shows "expandAzureRMhealthcareapisAuthentication d =
           Ret (Some \<lparr>Authority = Some a, Audience = Some u, SmartProxyEnabled = Some p\<rparr>)"
proof -
  have "auth_loop (bs @ [VMap m]) ('''', '''', True) = Ret (a, u, p)"
    using assms by (simp only: auth_loop_last auth_body_fields)
  with assms(1) show ?thesis
    by (simp add: expandAzureRMhealthcareapisAuthentication_def)
qed

lemma expand_cors_empty:
  assumes "dGet d ''cors_configuration'' = Some (VList [])"
  shows "expandAzureRMhealthcareapisCorsConfiguration d =
           Ret (Some \<lparr>Origins = None, Headers = None, Methods = None, MaxAge = None,
                      AllowCredentials = None\<rparr>)"
  using assms by (simp add: expandAzureRMhealthcareapisCorsConfiguration_def)

lemma expand_auth_empty:
  assumes "dGet d ''authentication_configuration'' = Some (VList [])"
  shows "expandAzureRMhealthcareapisAuthentication d =
           Ret (Some \<lparr>Authority = None, Audience = None, SmartProxyEnabled = None\<rparr>)"
  using assms by (simp add: expandAzureRMhealthcareapisAuthentication_def)

text \<open>
  Claim C10. \<open>FlattenHealthcareAccessPolicies\<close> returns for every input: for the nil
  pointer the empty slice that is not nil; for a list, a slice of the same length whose
  i-th map is built from the i-th entry: it holds the entry's identifier under
  \<open>object_id\<close>, and nothing when the entry has none. For a configuration whose
  \<open>access_policy_object_ids\<close> is a list of strings,
  \<open>expandAzureRMhealthcareapisAccessPolicyEntries\<close> returns a pointer that is not nil, to a
  slice of the same length, whose i-th entry holds the i-th string.
\<close>
theorem access_policies_structure:
  "FlattenHealthcareAccessPolicies None = Slice [] \<and>
   FlattenHealthcareAccessPolicies (Some ps) =
     Slice (map (\<lambda>policy. case ObjectID policy of
                              None \<Rightarrow> Map.empty
                            | Some objectId \<Rightarrow> Map.empty(''object_id'' \<mapsto> VString objectId))
              (elems ps)) \<and>
   length (elems (FlattenHealthcareAccessPolicies (Some ps))) = length (elems ps) \<and>
   (\<forall>i < length (elems ps).
      elems (FlattenHealthcareAccessPolicies (Some ps)) ! i =
        (case ObjectID (elems ps ! i) of
           None \<Rightarrow> Map.empty
         | Some objectId \<Rightarrow> Map.empty(''object_id'' \<mapsto> VString objectId))) \<and>
   (dGet d ''access_policy_object_ids'' = Some (VList (map VString ids)) \<longrightarrow>
      expandAzureRMhealthcareapisAccessPolicyEntries d =
        Ret (Some (Slice (map (\<lambda>s. \<lparr>ObjectID = Some s\<rparr>) ids))) \<and>
      (\<exists>es. expandAzureRMhealthcareapisAccessPolicyEntries d = Ret (Some (Slice es)) \<and>
            length es = length ids \<and>
            (\<forall>i < length ids. es ! i = \<lparr>ObjectID = Some (ids ! i)\<rparr>)))"
proof -
  have a: "FlattenHealthcareAccessPolicies None = Slice []"
    by (simp add: FlattenHealthcareAccessPolicies_def)
  have b: "FlattenHealthcareAccessPolicies (Some ps) =
     Slice (map (\<lambda>policy. case ObjectID policy of
                              None \<Rightarrow> Map.empty
                            | Some objectId \<Rightarrow> Map.empty(''object_id'' \<mapsto> VString objectId))
              (elems ps))"
    by (simp add: flatten_policies_map policyRaw_def)
  have c: "dGet d ''access_policy_object_ids'' = Some (VList (map VString ids)) \<Longrightarrow>
      expandAzureRMhealthcareapisAccessPolicyEntries d =
        Ret (Some (Slice (map (\<lambda>s. \<lparr>ObjectID = Some s\<rparr>) ids))) \<and>
      (\<exists>es. expandAzureRMhealthcareapisAccessPolicyEntries d = Ret (Some (Slice es)) \<and>
            length es = length ids \<and>
            (\<forall>i < length ids. es ! i = \<lparr>ObjectID = Some (ids ! i)\<rparr>))"
    by (simp add: expand_policies_strings)
  from a b c show ?thesis by simp
qed

theorem access_policies_structure_witness:
  "FlattenHealthcareAccessPolicies
     (Some (Slice [\<lparr>ObjectID = Some ''a''\<rparr>, \<lparr>ObjectID = None\<rparr>, \<lparr>ObjectID = Some ''b''\<rparr>])) =
     Slice [Map.empty(''object_id'' \<mapsto> VString ''a''), Map.empty,
            Map.empty(''object_id'' \<mapsto> VString ''b'')] \<and>
   dGet three_id_config ''access_policy_object_ids'' =
     Some (VList (map VString [''11111111-1111-1111-1111-111111111111'',
                               ''22222222-2222-2222-2222-222222222222'',
                               ''33333333-3333-3333-3333-333333333333''])) \<and>
   expandAzureRMhealthcareapisAccessPolicyEntries three_id_config =
     Ret (Some (Slice [\<lparr>ObjectID = Some ''11111111-1111-1111-1111-111111111111''\<rparr>,
                       \<lparr>ObjectID = Some ''22222222-2222-2222-2222-222222222222''\<rparr>,
                       \<lparr>ObjectID = Some ''33333333-3333-3333-3333-333333333333''\<rparr>]))"
  using access_policies_structure
    [of "Slice [\<lparr>ObjectID = Some ''a''\<rparr>, \<lparr>ObjectID = None\<rparr>, \<lparr>ObjectID = Some ''b''\<rparr>]"
        three_id_config "[''11111111-1111-1111-1111-111111111111'',
                          ''22222222-2222-2222-2222-222222222222'',
                          ''33333333-3333-3333-3333-333333333333'']"]
  by (simp add: three_id_config_def example_config_def dGet_def)

text \<open>
  Claim C7. Flatten introduces no attribute for a field that is nil in the response: an
  entry with nil \<open>ObjectID\<close> yields a map without \<open>object_id\<close>; nil \<open>Authority\<close>, \<open>Audience\<close>
  or \<open>SmartProxyEnabled\<close> leave \<open>authority\<close>, \<open>audience\<close> or \<open>smart_proxy_enabled\<close> out
  of the authentication map; nil \<open>Origins\<close>, \<open>Headers\<close>, \<open>Methods\<close>, \<open>MaxAge\<close> or
  \<open>AllowCredentials\<close> leave the corresponding key out of the CORS map; a nil
  sub-struct yields no block at all.
\<close>
theorem flatten_omits_absent_fields:
  "(\<forall>i < length (elems ps). ObjectID (elems ps ! i) = None \<longrightarrow>
      (elems (FlattenHealthcareAccessPolicies (Some ps)) ! i) ''object_id'' = None) \<and>
   (\<exists>m. authOutput (Some a) = [VMap m] \<and>
        (Authority a = None \<longrightarrow> m ''authority'' = None) \<and>
        (Audience a = None \<longrightarrow> m ''audience'' = None) \<and>
        (SmartProxyEnabled a = None \<longrightarrow> m ''smart_proxy_enabled'' = None)) \<and>
   (\<exists>m. corsOutput (Some c) = [VMap m] \<and>
        (Origins c = None \<longrightarrow> m ''allowed_origins'' = None) \<and>
        (Headers c = None \<longrightarrow> m ''allowed_headers'' = None) \<and>
        (Methods c = None \<longrightarrow> m ''allowed_methods'' = None) \<and>
        (MaxAge c = None \<longrightarrow> m ''max_age_in_seconds'' = None) \<and>
        (AllowCredentials c = None \<longrightarrow> m ''allow_credentials'' = None)) \<and>
   authOutput None = [] \<and> corsOutput None = []"
proof -
  have p: "\<forall>i < length (elems ps). ObjectID (elems ps ! i) = None \<longrightarrow>
      (elems (FlattenHealthcareAccessPolicies (Some ps)) ! i) ''object_id'' = None"
    by (simp add: flatten_policies_map policyRaw_def)
  have au: "\<exists>m. authOutput (Some a) = [VMap m] \<and>
        (Authority a = None \<longrightarrow> m ''authority'' = None) \<and>
        (Audience a = None \<longrightarrow> m ''audience'' = None) \<and>
        (SmartProxyEnabled a = None \<longrightarrow> m ''smart_proxy_enabled'' = None)"
    by (simp add: authOutput_def Let_def split: option.splits)
  have co: "\<exists>m. corsOutput (Some c) = [VMap m] \<and>
        (Origins c = None \<longrightarrow> m ''allowed_origins'' = None) \<and>
        (Headers c = None \<longrightarrow> m ''allowed_headers'' = None) \<and>
        (Methods c = None \<longrightarrow> m ''allowed_methods'' = None) \<and>
        (MaxAge c = None \<longrightarrow> m ''max_age_in_seconds'' = None) \<and>
        (AllowCredentials c = None \<longrightarrow> m ''allow_credentials'' = None)"
    by (simp add: corsOutput_def Let_def split: option.splits)
  have n: "authOutput None = [] \<and> corsOutput None = []"
    by (simp add: authOutput_def corsOutput_def)
  from p au co n show ?thesis by blast
qed

theorem flatten_omits_absent_fields_witness:
  "(elems (FlattenHealthcareAccessPolicies
      (Some (Slice [\<lparr>ObjectID = Some ''a''\<rparr>, \<lparr>ObjectID = None\<rparr>]))) ! 1) ''object_id'' = None \<and>
   (\<exists>m. authOutput (Some \<lparr>Authority = None, Audience = Some ''aud'', SmartProxyEnabled = None\<rparr>)
          = [VMap m] \<and> m ''authority'' = None \<and> m ''smart_proxy_enabled'' = None) \<and>
   (\<exists>m. corsOutput (Some \<lparr>Origins = None, Headers = None, Methods = Some (Slice [''GET'']),
                           MaxAge = None, AllowCredentials = None\<rparr>)
          = [VMap m] \<and> m ''allowed_origins'' = None \<and> m ''allowed_headers'' = None \<and>
            m ''max_age_in_seconds'' = None \<and> m ''allow_credentials'' = None)"
  using flatten_omits_absent_fields
    [of "Slice [\<lparr>ObjectID = Some ''a''\<rparr>, \<lparr>ObjectID = None\<rparr>]"
        "\<lparr>Authority = None, Audience = Some ''aud'', SmartProxyEnabled = None\<rparr>"
        "\<lparr>Origins = None, Headers = None, Methods = Some (Slice [''GET'']),
          MaxAge = None, AllowCredentials = None\<rparr>"]
  by auto

text \<open>
  Claim C2. For a configuration whose \<open>access_policy_object_ids\<close> holds exactly
  \<open>11111111-1111-1111-1111-111111111111\<close> and whose \<open>cors_configuration\<close> and
  \<open>authentication_configuration\<close> lists are empty, the access-policy pointer of the
  request is not nil and holds exactly one entry with that identifier, and the CORS and
  authentication pointers are not nil and have every field unset.
\<close>
theorem expand_example:
  assumes "dGet d ''access_policy_object_ids'' =
             Some (VList [VString ''11111111-1111-1111-1111-111111111111''])"
    and "dGet d ''cors_configuration'' = Some (VList [])"
    and "dGet d ''authentication_configuration'' = Some (VList [])"
  shows "expandAzureRMhealthcareapisAccessPolicyEntries d =
           Ret (Some (Slice [\<lparr>ObjectID = Some ''11111111-1111-1111-1111-111111111111''\<rparr>])) \<and>
         expandAzureRMhealthcareapisCorsConfiguration d =
           Ret (Some \<lparr>Origins = None, Headers = None, Methods = None, MaxAge = None,
                      AllowCredentials = None\<rparr>) \<and>
         expandAzureRMhealthcareapisAuthentication d =
           Ret (Some \<lparr>Authority = None, Audience = None, SmartProxyEnabled = None\<rparr>) \<and>
         healthcareServiceDescription location expandedTags kind cdba d =
           Ret \<lparr>Response = None, ID = None, Location = Some location, Tags = expandedTags,
                Kind = kind,
                Properties = Some
                  \<lparr>AccessPolicies =
                     Some (Slice [\<lparr>ObjectID = Some ''11111111-1111-1111-1111-111111111111''\<rparr>]),
                   CosmosDbConfiguration = Some \<lparr>OfferThroughput = Some cdba\<rparr>,
                   CorsConfiguration =
                     Some \<lparr>Origins = None, Headers = None, Methods = None, MaxAge = None,
                           AllowCredentials = None\<rparr>,
                   AuthenticationConfiguration =
                     Some \<lparr>Authority = None, Audience = None, SmartProxyEnabled = None\<rparr>\<rparr>\<rparr>"
proof -
  have a: "expandAzureRMhealthcareapisAccessPolicyEntries d =
           Ret (Some (Slice [\<lparr>ObjectID = Some ''11111111-1111-1111-1111-111111111111''\<rparr>]))"
    using assms(1) by (simp add: expandAzureRMhealthcareapisAccessPolicyEntries_def)
  note c = expand_cors_empty [OF assms(2)]
  note u = expand_auth_empty [OF assms(3)]
  have "healthcareServiceDescription location expandedTags kind cdba d =
           Ret \<lparr>Response = None, ID = None, Location = Some location, Tags = expandedTags,
                Kind = kind,
                Properties = Some
                  \<lparr>AccessPolicies =
                     Some (Slice [\<lparr>ObjectID = Some ''11111111-1111-1111-1111-111111111111''\<rparr>]),
                   CosmosDbConfiguration = Some \<lparr>OfferThroughput = Some cdba\<rparr>,
                   CorsConfiguration =
                     Some \<lparr>Origins = None, Headers = None, Methods = None, MaxAge = None,
                           AllowCredentials = None\<rparr>,
                   AuthenticationConfiguration =
                     Some \<lparr>Authority = None, Audience = None, SmartProxyEnabled = None\<rparr>\<rparr>\<rparr>"
    by (simp add: healthcareServiceDescription_def a c u)
  with a c u show ?thesis by simp
qed

theorem expand_example_witness:
  "expandAzureRMhealthcareapisAccessPolicyEntries example_config =
     Ret (Some (Slice [\<lparr>ObjectID = Some ''11111111-1111-1111-1111-111111111111''\<rparr>])) \<and>
   expandAzureRMhealthcareapisCorsConfiguration example_config =
     Ret (Some \<lparr>Origins = None, Headers = None, Methods = None, MaxAge = None,
                AllowCredentials = None\<rparr>) \<and>
   expandAzureRMhealthcareapisAuthentication example_config =
     Ret (Some \<lparr>Authority = None, Audience = None, SmartProxyEnabled = None\<rparr>)"
  using expand_example [of example_config]
  by (simp add: example_config_def dGet_def)

text \<open>
  Claim C6 fails as stated: a list of two authentication blocks one of which has no
  attribute (all three are optional in the schema, and the accessor hands out nil for such
  a block) makes \<open>expandAzureRMhealthcareapisAuthentication\<close> panic at its type assertion,
  whether the block without attributes comes first or last.
\<close>
theorem expand_blank_block_counterexample:
  "dGet blank_first_auth_config ''authentication_configuration'' =
     Some (VList [VNil, VMap auth_block_b]) \<and>
   expandAzureRMhealthcareapisAuthentication blank_first_auth_config = Panic \<and>
   dGet blank_last_auth_config ''authentication_configuration'' =
     Some (VList [VMap auth_block_a, VNil]) \<and>
   expandAzureRMhealthcareapisAuthentication blank_last_auth_config = Panic"
  by (simp add: blank_first_auth_config_def blank_last_auth_config_def example_config_def
        dGet_def expandAzureRMhealthcareapisAuthentication_def auth_body_def
        auth_block_a_def auth_block_b_def)

text \<open>
  Claim C6, amended. When every block of \<open>cors_configuration\<close> or
  \<open>authentication_configuration\<close> carries all its attributes with their declared types (so
  none is a block without attributes), the request sub-struct has the fields of the last
  block (\<open>max_age_in_seconds\<close> as its \<open>int32\<close>); the blocks before it do not appear in the
  result.
\<close>
theorem expand_keeps_last_block:
  "(dGet d ''cors_configuration'' = Some (VList (bs @ [VMap m])) \<and>
    list_all cors_block_typed bs \<and>
    m ''allowed_origins'' = Some (VList (map VString os)) \<and>
    m ''allowed_headers'' = Some (VList (map VString hs)) \<and>
    m ''allowed_methods'' = Some (VList (map VString ms)) \<and>
    m ''max_age_in_seconds'' = Some (VInt n) \<and>
    m ''allow_credentials'' = Some (VBool c) \<longrightarrow>
    expandAzureRMhealthcareapisCorsConfiguration d =
      Ret (Some \<lparr>Origins = Some (Slice os), Headers = Some (Slice hs),
                 Methods = Some (Slice ms), MaxAge = Some (ucast n),
                 AllowCredentials = Some c\<rparr>)) \<and>
   (dGet d ''authentication_configuration'' = Some (VList (as @ [VMap k])) \<and>
    list_all auth_block_typed as \<and>
    k ''authority'' = Some (VString a) \<and>
    k ''audience'' = Some (VString u) \<and>
    k ''smart_proxy_enabled'' = Some (VBool p) \<longrightarrow>
    expandAzureRMhealthcareapisAuthentication d =
      Ret (Some \<lparr>Authority = Some a, Audience = Some u, SmartProxyEnabled = Some p\<rparr>))"
  using expand_cors_last [of d bs m os hs ms n c] expand_auth_last [of d as k a u p]
  by blast

theorem expand_keeps_last_block_witness:
  "expandAzureRMhealthcareapisCorsConfiguration two_block_config =
     Ret (Some \<lparr>Origins = Some (Slice [''https://b.example'']), Headers = Some (Slice []),
                Methods = Some (Slice [''PUT'', ''POST'']), MaxAge = Some 500,
                AllowCredentials = Some False\<rparr>) \<and>
   expandAzureRMhealthcareapisAuthentication two_block_config =
     Ret (Some \<lparr>Authority = Some ''https://login.b'', Audience = Some '''',
                SmartProxyEnabled = Some False\<rparr>)"
  using expand_keeps_last_block
    [of two_block_config "[VMap cors_block_a]" cors_block_b "[''https://b.example'']" "[]"
        "[''PUT'', ''POST'']" 500 False "[VMap auth_block_a]" auth_block_b
        "''https://login.b''" "''''" False]
  by (simp add: two_block_config_def example_config_def dGet_def cors_block_a_def cors_block_b_def
        auth_block_a_def auth_block_b_def)












section \<open>Properties of the lifecycle handlers\<close>

text \<open>
  Claim C9. When the stored identifier does not parse, Read returns the parser's error
  and Delete returns it wrapped; the state after either is the state before: no transport
  call has been made, and neither the identifier nor any attribute has changed.
\<close>
theorem malformed_identifier_stops_read_and_delete:
  assumes "parseAzureResourceID env (Id_rd (rd s)) = Inl e"
  shows "resourceArmHealthcareServiceRead env s = (Some e, s) \<and>
         resourceArmHealthcareServiceDelete env s =
           (Some (Errorf ''Error Parsing Azure Resource ID: %+v'' [AError e]), s)"
  using assms
  by (simp add: resourceArmHealthcareServiceRead_def resourceArmHealthcareServiceDelete_def)

theorem malformed_identifier_stops_read_and_delete_witness:
  "parseAzureResourceID (fixture_env True found succeeds succeeds)
     (Id_rd (rd unparsable_world)) = Inl (External ''cannot parse Azure Resource ID'') \<and>
   resourceArmHealthcareServiceRead (fixture_env True found succeeds succeeds) unparsable_world =
     (Some (External ''cannot parse Azure Resource ID''), unparsable_world) \<and>
   resourceArmHealthcareServiceDelete (fixture_env True found succeeds succeeds) unparsable_world =
     (Some (Errorf ''Error Parsing Azure Resource ID: %+v''
              [AError (External ''cannot parse Azure Resource ID'')]), unparsable_world)"
proof -
  have h: "parseAzureResourceID (fixture_env True found succeeds succeeds)
     (Id_rd (rd unparsable_world)) = Inl (External ''cannot parse Azure Resource ID'')"
    by (simp add: fixture_env_def fixture_parse_def unparsable_world_def service_id_def)
  from malformed_identifier_stops_read_and_delete [OF h] h show ?thesis by simp
qed

text \<open>
  Claim C3. The stored identifier parses and \<open>Get\<close> returns an error. If the response
  reports "not found", Read stores the empty identifier and returns nil; otherwise Read
  returns an error that wraps the one of \<open>Get\<close>, and the accessor (identifier
  included) is as before.
\<close>
theorem read_get_error:
  assumes "parseAzureResourceID env (Id_rd (rd s)) = Inr rid"
    and "client_Get env (effects s) (ResourceGroup rid) (path_index (Path rid) ''services'') =
           (resp, Some e)"
  shows "(ResponseWasNotFound (Response resp) \<longrightarrow>
            fst (resourceArmHealthcareServiceRead env s) = None \<and>
            Id_rd (rd (snd (resourceArmHealthcareServiceRead env s))) = '''' \<and>
            effects (snd (resourceArmHealthcareServiceRead env s)) =
              effects s @ [CallGet (ResourceGroup rid) (path_index (Path rid) ''services''),
                           DoSetId '''']) \<and>
         (\<not> ResponseWasNotFound (Response resp) \<longrightarrow>
            fst (resourceArmHealthcareServiceRead env s) =
              Some (Errorf
                ''Error making Read request on Azure Healthcare Service %q (Resource Group %q): %+v''
                [AString (path_index (Path rid) ''services''), AString (ResourceGroup rid),
                 AError e]) \<and>
            rd (snd (resourceArmHealthcareServiceRead env s)) = rd s \<and>
            effects (snd (resourceArmHealthcareServiceRead env s)) =
              effects s @ [CallGet (ResourceGroup rid) (path_index (Path rid) ''services'')])"
  using assms
  by (simp add: resourceArmHealthcareServiceRead_def SetId_def perform_def Let_def)

theorem read_get_error_witness:
  "fst (resourceArmHealthcareServiceRead (fixture_env True not_found succeeds succeeds)
          stored_world) = None \<and>
   Id_rd (rd (snd (resourceArmHealthcareServiceRead
                     (fixture_env True not_found succeeds succeeds) stored_world))) = '''' \<and>
   fst (resourceArmHealthcareServiceRead (fixture_env True unavailable succeeds succeeds)
          stored_world) =
     Some (Errorf
       ''Error making Read request on Azure Healthcare Service %q (Resource Group %q): %+v''
       [AString ''svc1'', AString ''rg1'', AError (External ''StatusCode=500'')]) \<and>
   rd (snd (resourceArmHealthcareServiceRead (fixture_env True unavailable succeeds succeeds)
              stored_world)) = rd stored_world"
proof -
  let ?rid = "\<lparr>ResourceGroup = ''rg1'', Path = Map.empty(''services'' \<mapsto> ''svc1'')\<rparr>"
  have p1: "parseAzureResourceID (fixture_env True not_found succeeds succeeds)
              (Id_rd (rd stored_world)) = Inr ?rid"
    by (simp add: fixture_env_def fixture_parse_def stored_world_def)
  have g1: "client_Get (fixture_env True not_found succeeds succeeds) (effects stored_world)
              (ResourceGroup ?rid) (path_index (Path ?rid) ''services'') =
            (no_service 404, Some (External ''StatusCode=404''))"
    by (simp add: fixture_env_def not_found_def)
  have p2: "parseAzureResourceID (fixture_env True unavailable succeeds succeeds)
              (Id_rd (rd stored_world)) = Inr ?rid"
    by (simp add: fixture_env_def fixture_parse_def stored_world_def)
  have g2: "client_Get (fixture_env True unavailable succeeds succeeds) (effects stored_world)
              (ResourceGroup ?rid) (path_index (Path ?rid) ''services'') =
            (no_service 500, Some (External ''StatusCode=500''))"
    by (simp add: fixture_env_def unavailable_def)
  from read_get_error [OF p1 g1] read_get_error [OF p2 g2] show ?thesis
    by (simp add: no_service_def ResponseWasNotFound_def path_index_def)
qed

lemma delete_keeps_data:
  "rd (snd (resourceArmHealthcareServiceDelete env s)) = rd s"
  by (simp add: resourceArmHealthcareServiceDelete_def perform_def Let_def
        split: sum.splits prod.splits option.splits)

lemma delete_effects:
  "\<exists>h. effects (snd (resourceArmHealthcareServiceDelete env s)) = effects s @ h \<and>
       (\<forall>v. DoSetId v \<notin> set h)"
  by (simp add: resourceArmHealthcareServiceDelete_def perform_def Let_def
        split: sum.splits prod.splits option.splits)


lemma read_effects:
  "\<exists>rest. effects (snd (resourceArmHealthcareServiceRead env s)) = effects s @ rest \<and>
          (\<forall>v. DoSetId v \<in> set rest \<longrightarrow> v = '''')"
  by (auto simp add: resourceArmHealthcareServiceRead_def perform_def SetId_def Let_def
        split: sum.splits prod.splits option.splits)

lemma import_check_frame:
  "rd (snd (import_check env name resGroup s)) = rd s \<and>
   (\<exists>h. effects (snd (import_check env name resGroup s)) = effects s @ h \<and>
        (\<forall>v. DoSetId v \<notin> set h))"
  by (auto simp add: import_check_def perform_def Let_def
        split: prod.splits option.splits)

lemma create_submit_cases:
  "(rd (snd (create_submit env name rg desc s)) = rd s \<and>
    fst (create_submit env name rg desc s) \<noteq> None \<and>
    (\<exists>h. effects (snd (create_submit env name rg desc s)) = effects s @ h \<and>
         (\<forall>v. DoSetId v \<notin> set h))) \<or>
   (\<exists>fut read i rest.
      effects (snd (create_submit env name rg desc s)) =
        effects s @ [CallCreateOrUpdate rg name desc, CallWaitForCompletionRef fut,
                     CallGet rg name, DoSetId i] @ rest \<and>
      client_CreateOrUpdate env (effects s) rg name desc = (fut, None) \<and>
      WaitForCompletionRef env (effects s @ [CallCreateOrUpdate rg name desc]) fut = None \<and>
      client_Get env
        (effects s @ [CallCreateOrUpdate rg name desc, CallWaitForCompletionRef fut])
        rg name = (read, None) \<and>
      ID read = Some i \<and>
      (\<forall>v. DoSetId v \<in> set rest \<longrightarrow> v = ''''))"
proof -
  obtain fut err where cu: "client_CreateOrUpdate env (effects s) rg name desc = (fut, err)"
    by (cases "client_CreateOrUpdate env (effects s) rg name desc")
  let ?h1 = "effects s @ [CallCreateOrUpdate rg name desc]"
  let ?h2 = "effects s @ [CallCreateOrUpdate rg name desc, CallWaitForCompletionRef fut]"
  obtain read gerr where g: "client_Get env ?h2 rg name = (read, gerr)"
    by (cases "client_Get env ?h2 rg name")
  show ?thesis
  proof (cases "err = None \<and> WaitForCompletionRef env ?h1 fut = None \<and> gerr = None \<and>
                ID read \<noteq> None")
    case False
    then have "rd (snd (create_submit env name rg desc s)) = rd s \<and>
      fst (create_submit env name rg desc s) \<noteq> None \<and>
      (\<exists>h. effects (snd (create_submit env name rg desc s)) = effects s @ h \<and>
         (\<forall>v. DoSetId v \<notin> set h))"
      using cu g
      by (auto simp add: create_submit_def perform_def Let_def split: option.splits)
    then show ?thesis by blast
  next
    case True
    then obtain i where i: "ID read = Some i" by auto
    let ?s3 = "perform (CallGet rg name)
                 (perform (CallWaitForCompletionRef fut)
                    (perform (CallCreateOrUpdate rg name desc) s))"
    have cs: "create_submit env name rg desc s =
                resourceArmHealthcareServiceRead env (SetId i ?s3)"
      using True cu g i by (simp add: create_submit_def perform_def Let_def)
    from read_effects [of env "SetId i ?s3"] obtain rest where
      r: "effects (snd (resourceArmHealthcareServiceRead env (SetId i ?s3))) =
            effects (SetId i ?s3) @ rest"
      and n: "\<forall>v. DoSetId v \<in> set rest \<longrightarrow> v = ''''"
      by blast
    have e: "effects (SetId i ?s3) =
               effects s @ [CallCreateOrUpdate rg name desc, CallWaitForCompletionRef fut,
                            CallGet rg name, DoSetId i]"
      by (simp add: SetId_def perform_def)
    have "effects (snd (create_submit env name rg desc s)) =
        effects s @ [CallCreateOrUpdate rg name desc, CallWaitForCompletionRef fut,
                     CallGet rg name, DoSetId i] @ rest"
      using cs r e by simp
    with True cu g i n show ?thesis by blast
  qed
qed


lemma create_update_cases:
  "(rd (snd (resourceArmHealthcareServiceCreateUpdate env s)) = rd s \<and>
    fst (resourceArmHealthcareServiceCreateUpdate env s) \<noteq> Ret None \<and>
    (\<exists>h. effects (snd (resourceArmHealthcareServiceCreateUpdate env s)) = effects s @ h \<and>
         (\<forall>v. DoSetId v \<notin> set h))) \<or>
   (\<exists>h name rg desc fut read i rest.
      effects (snd (resourceArmHealthcareServiceCreateUpdate env s)) =
        effects s @ h @ [CallCreateOrUpdate rg name desc, CallWaitForCompletionRef fut,
                         CallGet rg name, DoSetId i] @ rest \<and>
      (\<forall>v. DoSetId v \<notin> set h) \<and>
      client_CreateOrUpdate env (effects s @ h) rg name desc = (fut, None) \<and>
      WaitForCompletionRef env (effects s @ h @ [CallCreateOrUpdate rg name desc]) fut = None \<and>
      client_Get env
        (effects s @ h @ [CallCreateOrUpdate rg name desc, CallWaitForCompletionRef fut])
        rg name = (read, None) \<and>
      ID read = Some i \<and>
      (\<forall>v. DoSetId v \<in> set rest \<longrightarrow> v = ''''))"
proof -
  define P where "P = (\<lambda>x :: error option go \<times> world.
    (rd (snd x) = rd s \<and> fst x \<noteq> Ret None \<and>
     (\<exists>h. effects (snd x) = effects s @ h \<and> (\<forall>v. DoSetId v \<notin> set h))) \<or>
    (\<exists>h name rg desc fut read i rest.
      effects (snd x) =
        effects s @ h @ [CallCreateOrUpdate rg name desc, CallWaitForCompletionRef fut,
                         CallGet rg name, DoSetId i] @ rest \<and>
      (\<forall>v. DoSetId v \<notin> set h) \<and>
      client_CreateOrUpdate env (effects s @ h) rg name desc = (fut, None) \<and>
      WaitForCompletionRef env (effects s @ h @ [CallCreateOrUpdate rg name desc]) fut = None \<and>
      client_Get env
        (effects s @ h @ [CallCreateOrUpdate rg name desc, CallWaitForCompletionRef fut])
        rg name = (read, None) \<and>
      ID read = Some i \<and>
      (\<forall>v. DoSetId v \<in> set rest \<longrightarrow> v = '''')))"
  have panic: "P (Panic, s)"
    by (simp add: P_def)
  have go_on: "P (case import_check env name resGroup s of
                    (Some err, s1) \<Rightarrow> (Ret (Some err), s1)
                  | (None, s1) \<Rightarrow>
                      (case healthcareServiceDescription location expandedTags kind cdba (rd s1) of
                         Panic \<Rightarrow> (Panic, s1)
                       | Ret desc \<Rightarrow>
                           (case create_submit env name resGroup desc s1 of
                              (r, s2) \<Rightarrow> (Ret r, s2))))"
    for name resGroup location expandedTags kind cdba
  proof -
    obtain ierr s1 where ic: "import_check env name resGroup s = (ierr, s1)"
      by (cases "import_check env name resGroup s")
    from import_check_frame [of env name resGroup s] ic obtain h where
      rd1: "rd s1 = rd s" and e1: "effects s1 = effects s @ h"
      and h: "\<forall>v. DoSetId v \<notin> set h"
      by auto
    show ?thesis
    proof (cases ierr)
      case (Some err)
      with ic rd1 e1 h show ?thesis by (auto simp add: P_def)
    next
      case None
      show ?thesis
      proof (cases "healthcareServiceDescription location expandedTags kind cdba (rd s1)")
        case Panic
        with ic None rd1 e1 h show ?thesis by (auto simp add: P_def)
      next
        case (Ret desc)
        let ?cs = "create_submit env name resGroup desc s1"
        have res: "(case import_check env name resGroup s of
                    (Some err, s1) \<Rightarrow> (Ret (Some err), s1)
                  | (None, s1) \<Rightarrow>
                      (case healthcareServiceDescription location expandedTags kind cdba (rd s1) of
                         Panic \<Rightarrow> (Panic, s1)
                       | Ret desc \<Rightarrow>
                           (case create_submit env name resGroup desc s1 of
                              (r, s2) \<Rightarrow> (Ret r, s2)))) = (Ret (fst ?cs), snd ?cs)"
          using ic None Ret by (simp add: case_prod_beta)
        from create_submit_cases [of env name resGroup desc s1]
        have "P (Ret (fst ?cs), snd ?cs)"
        proof
          assume a: "rd (snd ?cs) = rd s1 \<and> fst ?cs \<noteq> None \<and>
            (\<exists>h. effects (snd ?cs) = effects s1 @ h \<and> (\<forall>v. DoSetId v \<notin> set h))"
          then obtain h' where "effects (snd ?cs) = effects s1 @ h'"
            and "\<forall>v. DoSetId v \<notin> set h'" by blast
          with e1 h have "effects (snd ?cs) = effects s @ (h @ h') \<and>
            (\<forall>v. DoSetId v \<notin> set (h @ h'))" by simp
          then have "\<exists>k. effects (snd ?cs) = effects s @ k \<and> (\<forall>v. DoSetId v \<notin> set k)"
            by (rule exI)
          with a rd1 show ?thesis by (simp add: P_def)
        next
          assume "\<exists>fut read i rest.
            effects (snd ?cs) =
              effects s1 @ [CallCreateOrUpdate resGroup name desc, CallWaitForCompletionRef fut,
                     CallGet resGroup name, DoSetId i] @ rest \<and>
            client_CreateOrUpdate env (effects s1) resGroup name desc = (fut, None) \<and>
            WaitForCompletionRef env (effects s1 @ [CallCreateOrUpdate resGroup name desc]) fut
              = None \<and>
            client_Get env
              (effects s1 @ [CallCreateOrUpdate resGroup name desc, CallWaitForCompletionRef fut])
              resGroup name = (read, None) \<and>
            ID read = Some i \<and>
            (\<forall>v. DoSetId v \<in> set rest \<longrightarrow> v = '''')"
          then obtain fut read i rest where
            "effects (snd ?cs) =
              effects s @ h @ [CallCreateOrUpdate resGroup name desc, CallWaitForCompletionRef fut,
                     CallGet resGroup name, DoSetId i] @ rest"
            "client_CreateOrUpdate env (effects s @ h) resGroup name desc = (fut, None)"
            "WaitForCompletionRef env (effects s @ h @ [CallCreateOrUpdate resGroup name desc]) fut
              = None"
            "client_Get env
              (effects s @ h @ [CallCreateOrUpdate resGroup name desc, CallWaitForCompletionRef fut])
              resGroup name = (read, None)"
            "ID read = Some i"
            "\<forall>v. DoSetId v \<in> set rest \<longrightarrow> v = ''''"
            using e1 by auto
          with h have "\<exists>h name rg desc fut read i rest.
            effects (snd ?cs) =
              effects s @ h @ [CallCreateOrUpdate rg name desc, CallWaitForCompletionRef fut,
                         CallGet rg name, DoSetId i] @ rest \<and>
            (\<forall>v. DoSetId v \<notin> set h) \<and>
            client_CreateOrUpdate env (effects s @ h) rg name desc = (fut, None) \<and>
            WaitForCompletionRef env (effects s @ h @ [CallCreateOrUpdate rg name desc]) fut
              = None \<and>
            client_Get env
              (effects s @ h @ [CallCreateOrUpdate rg name desc, CallWaitForCompletionRef fut])
              rg name = (read, None) \<and>
            ID read = Some i \<and>
            (\<forall>v. DoSetId v \<in> set rest \<longrightarrow> v = '''')"
            by blast
          then show ?thesis by (simp add: P_def)
        qed
        with res show ?thesis by simp
      qed
    qed
  qed
  have "P (resourceArmHealthcareServiceCreateUpdate env s)"
    unfolding resourceArmHealthcareServiceCreateUpdate_def Let_def
    using panic go_on by (simp split: go.splits)
  then show ?thesis by (simp add: P_def)
qed


text \<open>
  Claim C8. Delete leaves the accessor as it was, whatever the outcome, and stores no
  identifier; it returns the wrapped parser error when the identifier does not parse, the
  wrapped transport error when the submit or the wait fails, and nil otherwise. The model
  of Delete has no panicking branch, so every outcome is a returned value. A second Delete
  after a first one still leaves the accessor as it was before the first, and surfaces
  the error of the transport if the transport reports one.
\<close>
theorem delete_keeps_identifier:
  "rd (snd (resourceArmHealthcareServiceDelete env s)) = rd s \<and>
   (\<exists>h. effects (snd (resourceArmHealthcareServiceDelete env s)) = effects s @ h \<and>
        (\<forall>v. DoSetId v \<notin> set h)) \<and>
   rd (snd (resourceArmHealthcareServiceDelete env
              (snd (resourceArmHealthcareServiceDelete env s)))) = rd s \<and>
   (parseAzureResourceID env (Id_rd (rd s)) = Inl pe \<longrightarrow>
      fst (resourceArmHealthcareServiceDelete env s) =
        Some (Errorf ''Error Parsing Azure Resource ID: %+v'' [AError pe])) \<and>
   (parseAzureResourceID env (Id_rd (rd s)) = Inr rid \<and>
    client_Delete env (effects s) (ResourceGroup rid) (path_index (Path rid) ''services'')
      = (fut, Some e) \<longrightarrow>
      fst (resourceArmHealthcareServiceDelete env s) =
        Some (Errorf ''Error deleting Healthcare Service %q (Resource Group %q): %+v''
                [AString (path_index (Path rid) ''services''),
                 AString (ResourceGroup rid), AError e])) \<and>
   (parseAzureResourceID env (Id_rd (rd s)) = Inr rid \<and>
    client_Delete env (effects s) (ResourceGroup rid) (path_index (Path rid) ''services'')
      = (fut, None) \<and>
    WaitForCompletionRef env
      (effects s @ [CallDelete (ResourceGroup rid) (path_index (Path rid) ''services'')]) fut
      = Some e \<longrightarrow>
      fst (resourceArmHealthcareServiceDelete env s) =
        Some (Errorf
          ''Error waiting for the deleting Healthcare Service %q (Resource Group %q): %+v''
          [AString (path_index (Path rid) ''services''),
           AString (ResourceGroup rid), AError e])) \<and>
   (parseAzureResourceID env (Id_rd (rd s)) = Inr rid \<and>
    client_Delete env (effects s) (ResourceGroup rid) (path_index (Path rid) ''services'')
      = (fut, None) \<and>
    WaitForCompletionRef env
      (effects s @ [CallDelete (ResourceGroup rid) (path_index (Path rid) ''services'')]) fut
      = None \<longrightarrow>
      fst (resourceArmHealthcareServiceDelete env s) = None)"
proof -
  have c: "rd (snd (resourceArmHealthcareServiceDelete env
              (snd (resourceArmHealthcareServiceDelete env s)))) = rd s"
    by (simp only: delete_keeps_data)
  have d: "(parseAzureResourceID env (Id_rd (rd s)) = Inl pe \<longrightarrow>
      fst (resourceArmHealthcareServiceDelete env s) =
        Some (Errorf ''Error Parsing Azure Resource ID: %+v'' [AError pe])) \<and>
   (parseAzureResourceID env (Id_rd (rd s)) = Inr rid \<and>
    client_Delete env (effects s) (ResourceGroup rid) (path_index (Path rid) ''services'')
      = (fut, Some e) \<longrightarrow>
      fst (resourceArmHealthcareServiceDelete env s) =
        Some (Errorf ''Error deleting Healthcare Service %q (Resource Group %q): %+v''
                [AString (path_index (Path rid) ''services''),
                 AString (ResourceGroup rid), AError e])) \<and>
   (parseAzureResourceID env (Id_rd (rd s)) = Inr rid \<and>
    client_Delete env (effects s) (ResourceGroup rid) (path_index (Path rid) ''services'')
      = (fut, None) \<and>
    WaitForCompletionRef env
      (effects s @ [CallDelete (ResourceGroup rid) (path_index (Path rid) ''services'')]) fut
      = Some e \<longrightarrow>
      fst (resourceArmHealthcareServiceDelete env s) =
        Some (Errorf
          ''Error waiting for the deleting Healthcare Service %q (Resource Group %q): %+v''
          [AString (path_index (Path rid) ''services''),
           AString (ResourceGroup rid), AError e])) \<and>
   (parseAzureResourceID env (Id_rd (rd s)) = Inr rid \<and>
    client_Delete env (effects s) (ResourceGroup rid) (path_index (Path rid) ''services'')
      = (fut, None) \<and>
    WaitForCompletionRef env
      (effects s @ [CallDelete (ResourceGroup rid) (path_index (Path rid) ''services'')]) fut
      = None \<longrightarrow>
      fst (resourceArmHealthcareServiceDelete env s) = None)"
    by (simp add: resourceArmHealthcareServiceDelete_def perform_def Let_def)
  from c d delete_keeps_data [of env s] delete_effects [of env s] show ?thesis by blast
qed

theorem delete_keeps_identifier_witness:
  "fst (resourceArmHealthcareServiceDelete (fixture_env True found succeeds succeeds)
          unparsable_world) =
     Some (Errorf ''Error Parsing Azure Resource ID: %+v''
             [AError (External ''cannot parse Azure Resource ID'')]) \<and>
   fst (resourceArmHealthcareServiceDelete (fixture_env True found fails succeeds)
          stored_world) =
     Some (Errorf ''Error deleting Healthcare Service %q (Resource Group %q): %+v''
             [AString ''svc1'', AString ''rg1'', AError (External ''StatusCode=409'')]) \<and>
   fst (resourceArmHealthcareServiceDelete (fixture_env True found succeeds fails)
          stored_world) =
     Some (Errorf
       ''Error waiting for the deleting Healthcare Service %q (Resource Group %q): %+v''
       [AString ''svc1'', AString ''rg1'', AError (External ''StatusCode=409'')]) \<and>
   fst (resourceArmHealthcareServiceDelete (fixture_env True found succeeds succeeds)
          stored_world) = None \<and>
   rd (snd (resourceArmHealthcareServiceDelete (fixture_env True found fails succeeds)
              stored_world)) = rd stored_world \<and>
   rd (snd (resourceArmHealthcareServiceDelete (fixture_env True found fails succeeds)
         (snd (resourceArmHealthcareServiceDelete (fixture_env True found succeeds succeeds)
                 stored_world)))) = rd stored_world"
proof -
  let ?rid = "\<lparr>ResourceGroup = ''rg1'', Path = Map.empty(''services'' \<mapsto> ''svc1'')\<rparr>"
  let ?pe = "External ''cannot parse Azure Resource ID''"
  let ?e = "External ''StatusCode=409''"
  note t1 = delete_keeps_identifier
    [of "fixture_env True found succeeds succeeds" unparsable_world ?pe ?rid "Future 1" ?e]
  note t2 = delete_keeps_identifier
    [of "fixture_env True found fails succeeds" stored_world ?pe ?rid "Future 1" ?e]
  note t3 = delete_keeps_identifier
    [of "fixture_env True found succeeds fails" stored_world ?pe ?rid "Future 1" ?e]
  note t4 = delete_keeps_identifier
    [of "fixture_env True found succeeds succeeds" stored_world ?pe ?rid "Future 1" ?e]
  have p0: "parseAzureResourceID (fixture_env True found succeeds succeeds)
              (Id_rd (rd unparsable_world)) = Inl ?pe"
    by (simp add: fixture_env_def fixture_parse_def unparsable_world_def service_id_def)
  have p: "parseAzureResourceID (fixture_env True found x y) (Id_rd (rd stored_world)) = Inr ?rid"
    for x y
    by (simp add: fixture_env_def fixture_parse_def stored_world_def)
  have d2: "client_Delete (fixture_env True found fails succeeds) (effects stored_world)
              (ResourceGroup ?rid) (path_index (Path ?rid) ''services'') = (Future 1, Some ?e)"
    by (simp add: fixture_env_def fails_def)
  have d3: "client_Delete (fixture_env True found succeeds y) (effects stored_world)
              (ResourceGroup ?rid) (path_index (Path ?rid) ''services'') = (Future 1, None)"
    for y
    by (simp add: fixture_env_def succeeds_def)
  have w3: "WaitForCompletionRef (fixture_env True found succeeds fails)
      (effects stored_world @
         [CallDelete (ResourceGroup ?rid) (path_index (Path ?rid) ''services'')]) (Future 1)
      = Some ?e"
    by (simp add: fixture_env_def fails_def)
  have w4: "WaitForCompletionRef (fixture_env True found succeeds succeeds)
      (effects stored_world @
         [CallDelete (ResourceGroup ?rid) (path_index (Path ?rid) ''services'')]) (Future 1)
      = None"
    by (simp add: fixture_env_def succeeds_def)
  have n: "path_index (Path ?rid) ''services'' = ''svc1''"
    by (simp add: path_index_def)
  from t1 p0 have r1: "fst (resourceArmHealthcareServiceDelete
      (fixture_env True found succeeds succeeds) unparsable_world) =
     Some (Errorf ''Error Parsing Azure Resource ID: %+v'' [AError ?pe])"
    by blast
  from t2 p d2 n have r2: "fst (resourceArmHealthcareServiceDelete
      (fixture_env True found fails succeeds) stored_world) =
     Some (Errorf ''Error deleting Healthcare Service %q (Resource Group %q): %+v''
             [AString ''svc1'', AString ''rg1'', AError ?e])"
    by simp
  from t3 p d3 w3 n have r3: "fst (resourceArmHealthcareServiceDelete
      (fixture_env True found succeeds fails) stored_world) =
     Some (Errorf
       ''Error waiting for the deleting Healthcare Service %q (Resource Group %q): %+v''
       [AString ''svc1'', AString ''rg1'', AError ?e])"
    by simp
  from t4 p d3 w4 have r4: "fst (resourceArmHealthcareServiceDelete
      (fixture_env True found succeeds succeeds) stored_world) = None"
    by simp
  from t2 have r5: "rd (snd (resourceArmHealthcareServiceDelete
      (fixture_env True found fails succeeds) stored_world)) = rd stored_world"
    by blast
  have r6: "rd (snd (resourceArmHealthcareServiceDelete (fixture_env True found fails succeeds)
         (snd (resourceArmHealthcareServiceDelete (fixture_env True found succeeds succeeds)
                 stored_world)))) = rd stored_world"
    using t4 delete_keeps_identifier
      [of "fixture_env True found fails succeeds"
          "snd (resourceArmHealthcareServiceDelete (fixture_env True found succeeds succeeds)
                 stored_world)" ?pe ?rid "Future 1" ?e]
    by simp
  from r1 r2 r3 r4 r5 r6 show ?thesis by simp
qed

text \<open>
  Claim C4. Import protection is on, the resource is new, the attributes read at the start
  have their declared types, and the preliminary \<open>Get\<close> returns a representation (without
  error, or with one whose response reports "not found") whose identifier is neither nil
  nor empty. Then the handler returns the already-exists error for
  \<open>azurerm_healthcare_service\<close> and that identifier; the \<open>Get\<close> is its only effect: no
  \<open>CreateOrUpdate\<close> is submitted and the accessor is unchanged.
\<close>
theorem create_refuses_existing:
  assumes "requireResourcesToBeImported env" and "IsNewResource (rd s)"
    and "dGet (rd s) ''name'' = Some (VString name)"
    and "dGet (rd s) ''resource_group_name'' = Some (VString resGroup)"
    and "dGet (rd s) ''location'' = Some (VString loc)"
    and "dGet (rd s) ''tags'' = Some (VMap tags)"
    and "dGet (rd s) ''kind'' = Some (VString kind)"
    and "dGet (rd s) ''cosmosdb_throughput'' = Some (VInt n)"
    and "client_Get env (effects s) resGroup name = (existing, err)"
    and "err = None \<or> ResponseWasNotFound (Response existing)"
    and "ID existing = Some i" and "i \<noteq> ''''"
  shows "resourceArmHealthcareServiceCreateUpdate env s =
           (Ret (Some (ImportAsExistsError ''azurerm_healthcare_service'' i)),
            s\<lparr>effects := effects s @ [CallGet resGroup name]\<rparr>) \<and>
         rd (snd (resourceArmHealthcareServiceCreateUpdate env s)) = rd s \<and>
         (\<forall>rg nm desc. CallCreateOrUpdate rg nm desc \<notin>
            set (drop (length (effects s))
                   (effects (snd (resourceArmHealthcareServiceCreateUpdate env s)))))"
proof -
  have ic: "import_check env name resGroup s =
              (Some (ImportAsExistsError ''azurerm_healthcare_service'' i),
               s\<lparr>effects := effects s @ [CallGet resGroup name]\<rparr>)"
    using assms(1,2,9-12)
    by (auto simp add: import_check_def perform_def Let_def split: option.splits)
  have "resourceArmHealthcareServiceCreateUpdate env s =
           (Ret (Some (ImportAsExistsError ''azurerm_healthcare_service'' i)),
            s\<lparr>effects := effects s @ [CallGet resGroup name]\<rparr>)"
    using assms(3-8) ic by (simp add: resourceArmHealthcareServiceCreateUpdate_def Let_def)
  then show ?thesis by simp
qed

theorem create_refuses_existing_witness:
  "requireResourcesToBeImported (fixture_env True found succeeds succeeds) \<and>
   IsNewResource (rd new_world) \<and>
   client_Get (fixture_env True found succeeds succeeds) (effects new_world) ''rg1'' ''svc1'' =
     (remote_service, None) \<and>
   ID remote_service = Some service_id \<and> service_id \<noteq> '''' \<and>
   resourceArmHealthcareServiceCreateUpdate (fixture_env True found succeeds succeeds) new_world =
     (Ret (Some (ImportAsExistsError ''azurerm_healthcare_service'' service_id)),
      new_world\<lparr>effects := effects new_world @ [CallGet ''rg1'' ''svc1'']\<rparr>)"
proof -
  have a: "requireResourcesToBeImported (fixture_env True found succeeds succeeds)"
    by (simp add: fixture_env_def)
  have b: "IsNewResource (rd new_world)"
    by (simp add: new_world_def example_config_def)
  have g: "client_Get (fixture_env True found succeeds succeeds) (effects new_world)
             ''rg1'' ''svc1'' = (remote_service, None)"
    by (simp add: fixture_env_def found_def)
  have i: "ID remote_service = Some service_id" and ne: "service_id \<noteq> ''''"
    by (simp_all add: remote_service_def service_id_def)
  have c: "dGet (rd new_world) ''name'' = Some (VString ''svc1'')"
    "dGet (rd new_world) ''resource_group_name'' = Some (VString ''rg1'')"
    "dGet (rd new_world) ''location'' = Some (VString ''westus2'')"
    "dGet (rd new_world) ''tags'' = Some (VMap Map.empty)"
    "dGet (rd new_world) ''kind'' = Some (VString ''fhir'')"
    "dGet (rd new_world) ''cosmosdb_throughput'' = Some (VInt 1000)"
    by (simp_all add: new_world_def example_config_def dGet_def)
  have o: "None = None \<or> ResponseWasNotFound (Response remote_service)" by simp
  from create_refuses_existing [OF a b c g o i ne] a b g i ne show ?thesis by simp
qed


text \<open>
  Claim C5. Every run of Create/Update is of one of two kinds. Either it stores no
  identifier, leaves the accessor unchanged and does not return nil (it returns an error or
  stops on a failed type assertion). Or its effects contain, in this order, a
  \<open>CreateOrUpdate\<close> that returned no error, a wait that returned no error, a \<open>Get\<close> that
  returned no error and an identifier that is not nil, and the storing of that identifier;
  nothing is stored before, and afterwards only Read may store the empty identifier. On
  each of the four error paths (submit, wait, re-fetch, nil identifier) the handler returns
  the corresponding error with the accessor unchanged.
\<close>
theorem identifier_set_after_confirmation:
  "((rd (snd (resourceArmHealthcareServiceCreateUpdate env s)) = rd s \<and>
     fst (resourceArmHealthcareServiceCreateUpdate env s) \<noteq> Ret None \<and>
     (\<exists>h. effects (snd (resourceArmHealthcareServiceCreateUpdate env s)) = effects s @ h \<and>
          (\<forall>v. DoSetId v \<notin> set h))) \<or>
    (\<exists>h name rg desc fut read i rest.
       effects (snd (resourceArmHealthcareServiceCreateUpdate env s)) =
         effects s @ h @ [CallCreateOrUpdate rg name desc, CallWaitForCompletionRef fut,
                          CallGet rg name, DoSetId i] @ rest \<and>
       (\<forall>v. DoSetId v \<notin> set h) \<and>
       client_CreateOrUpdate env (effects s @ h) rg name desc = (fut, None) \<and>
       WaitForCompletionRef env (effects s @ h @ [CallCreateOrUpdate rg name desc]) fut = None \<and>
       client_Get env
         (effects s @ h @ [CallCreateOrUpdate rg name desc, CallWaitForCompletionRef fut])
         rg name = (read, None) \<and>
       ID read = Some i \<and>
       (\<forall>v. DoSetId v \<in> set rest \<longrightarrow> v = ''''))) \<and>
   (client_CreateOrUpdate env (effects t) resGroup nm d = (f, Some e) \<longrightarrow>
      create_submit env nm resGroup d t =
        (Some (Errorf ''Error Creating/Updating Healthcare Service %q (Resource Group %q): %+v''
                 [AString nm, AString resGroup, AError e]),
         t\<lparr>effects := effects t @ [CallCreateOrUpdate resGroup nm d]\<rparr>)) \<and>
   (client_CreateOrUpdate env (effects t) resGroup nm d = (f, None) \<and>
    WaitForCompletionRef env (effects t @ [CallCreateOrUpdate resGroup nm d]) f = Some e \<longrightarrow>
      create_submit env nm resGroup d t =
        (Some (Errorf ''Error Creating/Updating Healthcare Service %q (Resource Group %q): %+v''
                 [AString nm, AString resGroup, AError e]),
         t\<lparr>effects := effects t @ [CallCreateOrUpdate resGroup nm d,
                                    CallWaitForCompletionRef f]\<rparr>)) \<and>
   (client_CreateOrUpdate env (effects t) resGroup nm d = (f, None) \<and>
    WaitForCompletionRef env (effects t @ [CallCreateOrUpdate resGroup nm d]) f = None \<and>
    client_Get env (effects t @ [CallCreateOrUpdate resGroup nm d, CallWaitForCompletionRef f])
      resGroup nm = (got, Some e) \<longrightarrow>
      create_submit env nm resGroup d t =
        (Some (Errorf ''Error Retrieving Healthcare Service %q (Resource Group %q): %+v''
                 [AString nm, AString resGroup, AError e]),
         t\<lparr>effects := effects t @ [CallCreateOrUpdate resGroup nm d,
                                    CallWaitForCompletionRef f, CallGet resGroup nm]\<rparr>)) \<and>
   (client_CreateOrUpdate env (effects t) resGroup nm d = (f, None) \<and>
    WaitForCompletionRef env (effects t @ [CallCreateOrUpdate resGroup nm d]) f = None \<and>
    client_Get env (effects t @ [CallCreateOrUpdate resGroup nm d, CallWaitForCompletionRef f])
      resGroup nm = (got, None) \<and> ID got = None \<longrightarrow>
      create_submit env nm resGroup d t =
        (Some (Errorf ''Cannot read Healthcare Service %q (resource group %q) ID''
                 [AString nm, AString resGroup]),
         t\<lparr>effects := effects t @ [CallCreateOrUpdate resGroup nm d,
                                    CallWaitForCompletionRef f, CallGet resGroup nm]\<rparr>))"
proof -
  have paths:
   "(client_CreateOrUpdate env (effects t) resGroup nm d = (f, Some e) \<longrightarrow>
      create_submit env nm resGroup d t =
        (Some (Errorf ''Error Creating/Updating Healthcare Service %q (Resource Group %q): %+v''
                 [AString nm, AString resGroup, AError e]),
         t\<lparr>effects := effects t @ [CallCreateOrUpdate resGroup nm d]\<rparr>)) \<and>
   (client_CreateOrUpdate env (effects t) resGroup nm d = (f, None) \<and>
    WaitForCompletionRef env (effects t @ [CallCreateOrUpdate resGroup nm d]) f = Some e \<longrightarrow>
      create_submit env nm resGroup d t =
        (Some (Errorf ''Error Creating/Updating Healthcare Service %q (Resource Group %q): %+v''
                 [AString nm, AString resGroup, AError e]),
         t\<lparr>effects := effects t @ [CallCreateOrUpdate resGroup nm d,
                                    CallWaitForCompletionRef f]\<rparr>)) \<and>
   (client_CreateOrUpdate env (effects t) resGroup nm d = (f, None) \<and>
    WaitForCompletionRef env (effects t @ [CallCreateOrUpdate resGroup nm d]) f = None \<and>
    client_Get env (effects t @ [CallCreateOrUpdate resGroup nm d, CallWaitForCompletionRef f])
      resGroup nm = (got, Some e) \<longrightarrow>
      create_submit env nm resGroup d t =
        (Some (Errorf ''Error Retrieving Healthcare Service %q (Resource Group %q): %+v''
                 [AString nm, AString resGroup, AError e]),
         t\<lparr>effects := effects t @ [CallCreateOrUpdate resGroup nm d,
                                    CallWaitForCompletionRef f, CallGet resGroup nm]\<rparr>)) \<and>
   (client_CreateOrUpdate env (effects t) resGroup nm d = (f, None) \<and>
    WaitForCompletionRef env (effects t @ [CallCreateOrUpdate resGroup nm d]) f = None \<and>
    client_Get env (effects t @ [CallCreateOrUpdate resGroup nm d, CallWaitForCompletionRef f])
      resGroup nm = (got, None) \<and> ID got = None \<longrightarrow>
      create_submit env nm resGroup d t =
        (Some (Errorf ''Cannot read Healthcare Service %q (resource group %q) ID''
                 [AString nm, AString resGroup]),
         t\<lparr>effects := effects t @ [CallCreateOrUpdate resGroup nm d,
                                    CallWaitForCompletionRef f, CallGet resGroup nm]\<rparr>))"
    by (simp add: create_submit_def perform_def Let_def)
  from create_update_cases [of env s] paths show ?thesis by (rule conjI)
qed

theorem identifier_set_after_confirmation_witness:
  "Id_rd (rd (snd (resourceArmHealthcareServiceCreateUpdate
                     (fixture_env False found succeeds succeeds) new_world))) = service_id \<and>
   drop 1 (effects (snd (resourceArmHealthcareServiceCreateUpdate
                           (fixture_env False found succeeds succeeds) new_world))) =
     [CallWaitForCompletionRef (Future 0), CallGet ''rg1'' ''svc1'', DoSetId service_id,
      CallGet ''rg1'' ''svc1''] \<and>
   fst (create_submit (fixture_env False found fails succeeds) ''svc1'' ''rg1'' remote_service
          new_world) =
     Some (Errorf ''Error Creating/Updating Healthcare Service %q (Resource Group %q): %+v''
             [AString ''svc1'', AString ''rg1'', AError (External ''StatusCode=409'')]) \<and>
   rd (snd (create_submit (fixture_env False found fails succeeds) ''svc1'' ''rg1''
              remote_service new_world)) = rd new_world \<and>
   fst (create_submit (fixture_env False found succeeds fails) ''svc1'' ''rg1'' remote_service
          new_world) =
     Some (Errorf ''Error Creating/Updating Healthcare Service %q (Resource Group %q): %+v''
             [AString ''svc1'', AString ''rg1'', AError (External ''StatusCode=409'')]) \<and>
   fst (create_submit (fixture_env False unavailable succeeds succeeds) ''svc1'' ''rg1''
          remote_service new_world) =
     Some (Errorf ''Error Retrieving Healthcare Service %q (Resource Group %q): %+v''
             [AString ''svc1'', AString ''rg1'', AError (External ''StatusCode=500'')]) \<and>
   fst (create_submit (fixture_env False found_without_id succeeds succeeds) ''svc1'' ''rg1''
          remote_service new_world) =
     Some (Errorf ''Cannot read Healthcare Service %q (resource group %q) ID''
             [AString ''svc1'', AString ''rg1''])"
proof -
  let ?e = "External ''StatusCode=409''"
  let ?e5 = "External ''StatusCode=500''"
  let ?ok = "fixture_env False found succeeds succeeds"
  have run: "Id_rd (rd (snd (resourceArmHealthcareServiceCreateUpdate ?ok new_world)))
               = service_id"
    by (simp add: resourceArmHealthcareServiceCreateUpdate_def import_check_def
          healthcareServiceDescription_def create_submit_def
          resourceArmHealthcareServiceRead_def read_fields_def flattenAndSetTags_def dSet_def
          expandAzureRMhealthcareapisAccessPolicyEntries_def
          expandAzureRMhealthcareapisCorsConfiguration_def
          expandAzureRMhealthcareapisAuthentication_def
          fixture_env_def fixture_parse_def found_def succeeds_def remote_service_def
          new_world_def example_config_def dGet_def SetId_def perform_def path_index_def
          Let_def)
  from identifier_set_after_confirmation [of ?ok new_world]
  have eff: "drop 1 (effects (snd (resourceArmHealthcareServiceCreateUpdate ?ok new_world))) =
     [CallWaitForCompletionRef (Future 0), CallGet ''rg1'' ''svc1'', DoSetId service_id,
      CallGet ''rg1'' ''svc1'']"
    by (simp add: resourceArmHealthcareServiceCreateUpdate_def import_check_def
          healthcareServiceDescription_def create_submit_def
          resourceArmHealthcareServiceRead_def read_fields_def flattenAndSetTags_def dSet_def
          expandAzureRMhealthcareapisAccessPolicyEntries_def
          expandAzureRMhealthcareapisCorsConfiguration_def
          expandAzureRMhealthcareapisAuthentication_def
          fixture_env_def fixture_parse_def found_def succeeds_def remote_service_def
          new_world_def example_config_def dGet_def SetId_def perform_def path_index_def
          Let_def)
  note t2 = identifier_set_after_confirmation
    [of "fixture_env False found fails succeeds" new_world new_world "''rg1''" "''svc1''"
        remote_service "Future 0" ?e remote_service]
  note t3 = identifier_set_after_confirmation
    [of "fixture_env False found succeeds fails" new_world new_world "''rg1''" "''svc1''"
        remote_service "Future 0" ?e remote_service]
  note t4 = identifier_set_after_confirmation
    [of "fixture_env False unavailable succeeds succeeds" new_world new_world "''rg1''" "''svc1''"
        remote_service "Future 0" ?e5 "no_service 500"]
  note t5 = identifier_set_after_confirmation
    [of "fixture_env False found_without_id succeeds succeeds" new_world new_world "''rg1''"
        "''svc1''" remote_service "Future 0" ?e "remote_service\<lparr>ID := None\<rparr>"]
  have r2: "create_submit (fixture_env False found fails succeeds) ''svc1'' ''rg1''
              remote_service new_world =
     (Some (Errorf ''Error Creating/Updating Healthcare Service %q (Resource Group %q): %+v''
             [AString ''svc1'', AString ''rg1'', AError ?e]),
      new_world\<lparr>effects := effects new_world @
         [CallCreateOrUpdate ''rg1'' ''svc1'' remote_service]\<rparr>)"
    using t2 by (simp add: fixture_env_def fails_def)
  have r3: "create_submit (fixture_env False found succeeds fails) ''svc1'' ''rg1''
              remote_service new_world =
     (Some (Errorf ''Error Creating/Updating Healthcare Service %q (Resource Group %q): %+v''
             [AString ''svc1'', AString ''rg1'', AError ?e]),
      new_world\<lparr>effects := effects new_world @
         [CallCreateOrUpdate ''rg1'' ''svc1'' remote_service,
          CallWaitForCompletionRef (Future 0)]\<rparr>)"
    using t3 by (simp add: fixture_env_def fails_def succeeds_def)
  have r4: "create_submit (fixture_env False unavailable succeeds succeeds) ''svc1'' ''rg1''
              remote_service new_world =
     (Some (Errorf ''Error Retrieving Healthcare Service %q (Resource Group %q): %+v''
             [AString ''svc1'', AString ''rg1'', AError ?e5]),
      new_world\<lparr>effects := effects new_world @
         [CallCreateOrUpdate ''rg1'' ''svc1'' remote_service,
          CallWaitForCompletionRef (Future 0), CallGet ''rg1'' ''svc1'']\<rparr>)"
    using t4 by (simp add: fixture_env_def unavailable_def succeeds_def)
  have r5: "create_submit (fixture_env False found_without_id succeeds succeeds) ''svc1''
              ''rg1'' remote_service new_world =
     (Some (Errorf ''Cannot read Healthcare Service %q (resource group %q) ID''
             [AString ''svc1'', AString ''rg1'']),
      new_world\<lparr>effects := effects new_world @
         [CallCreateOrUpdate ''rg1'' ''svc1'' remote_service,
          CallWaitForCompletionRef (Future 0), CallGet ''rg1'' ''svc1'']\<rparr>)"
    using t5 by (simp add: fixture_env_def found_without_id_def succeeds_def)
  from run eff r2 r3 r4 r5 show ?thesis by simp
qed

end
